theory Spec2Isabelle
  imports Main "HOL-Library.Sublist"
begin

section \<open>JavaScript strings\<close>

text \<open>
  A JavaScript string is a sequence of UTF-16 code units. The chatbot route works on
  English, Hindi (Devanagari block, U+0900..U+097F = 2304..2431) and Telugu (Telugu block,
  U+0C00..U+0C7F = 3072..3199) text, so a message is a list of code units, each an integer
  in 0..65535. Identifiers of the program (category names, priority names, slot keys) are
  ASCII and are kept as \<open>string\<close>; \<open>asc\<close> turns an ASCII literal into code units.
\<close>

type_synonym cu = int
type_synonym jsstr = "cu list"

definition asc :: "string \<Rightarrow> jsstr" where
  "asc s = map of_char s"

definition is_upper :: "cu \<Rightarrow> bool" where
  "is_upper c = (65 \<le> c \<and> c \<le> 90)"

definition is_lower :: "cu \<Rightarrow> bool" where
  "is_lower c = (97 \<le> c \<and> c \<le> 122)"

text \<open>
  Case. The flag \<open>i\<close> of a regular expression without the flag \<open>u\<close> compares the
  upper-case forms of single code units and never folds a code unit above 127 onto an
  ASCII letter; the Devanagari and Telugu blocks have no case pairs. So \<open>canon\<close>, the
  canonical form under the flag, changes the ASCII letters only.

  \<open>String.prototype.toLowerCase\<close> maps the ASCII capitals to their small letters, the
  Kelvin sign U+212A to \<open>k\<close> and the dotted capital I U+0130 to \<open>i\<close> followed by U+0307.
  No other code unit has a lower-case form with an ASCII, Devanagari or Telugu code unit in
  it, and the program only tests lower-cased text for words of these three alphabets, so
  every other code unit is left as it is.
\<close>

definition lower_unit :: "cu \<Rightarrow> cu" where
  "lower_unit c = (if is_upper c then c + 32 else c)"

definition canon :: "cu \<Rightarrow> cu" where
  "canon c = (if is_lower c then c - 32 else c)"

definition lower_units :: "cu \<Rightarrow> jsstr" where
  "lower_units c =
     (if is_upper c then [c + 32]
      else if c = 304 then [105, 775]
      else if c = 8490 then [107]
      else [c])"

definition toLowerCase :: "jsstr \<Rightarrow> jsstr" where
  "toLowerCase s = concat (map lower_units s)"

text \<open>The class \<open>\w\<close>: ASCII letters, digits and the underscore, whatever the flags.\<close>

definition is_word :: "cu \<Rightarrow> bool" where
  "is_word c = (is_upper c \<or> is_lower c \<or> (48 \<le> c \<and> c \<le> 57) \<or> c = 95)"

text \<open>\<open>String.prototype.includes\<close>.\<close>

fun starts_with :: "jsstr \<Rightarrow> jsstr \<Rightarrow> bool" where
  "starts_with s [] = True"
| "starts_with [] (a # w) = False"
| "starts_with (x # s) (a # w) = (x = a \<and> starts_with s w)"

fun js_includes :: "jsstr \<Rightarrow> jsstr \<Rightarrow> bool" where
  "js_includes [] w = (w = [])"
| "js_includes (x # s) w = (starts_with (x # s) w \<or> js_includes s w)"

section \<open>Regular expressions\<close>

text \<open>
  The fragment of ECMAScript regular expressions the route uses: literals, character
  classes (a union of code-unit ranges, or its complement), a greedy star over a class,
  sequence, ordered alternation, the word boundary \<open>\b\<close>, capturing groups and the two
  anchors. The matcher is the backtracking one of the language: \<open>rxm\<close> returns the
  states a match attempt can end in, in the order backtracking tries them, so the head
  of the list is the match JavaScript reports. A state is the code unit before the
  current position (for \<open>\b\<close>), the rest of the input, and the captures so far.
\<close>

datatype cset = In "(cu \<times> cu) list" | NotIn "(cu \<times> cu) list"

fun in_ranges :: "(cu \<times> cu) list \<Rightarrow> cu \<Rightarrow> bool" where
  "in_ranges [] c = False"
| "in_ranges ((lo, hi) # rs) c = ((lo \<le> c \<and> c \<le> hi) \<or> in_ranges rs c)"

definition in_folded :: "bool \<Rightarrow> (cu \<times> cu) list \<Rightarrow> cu \<Rightarrow> bool" where
  "in_folded ic rs c =
     (in_ranges rs c \<or> (ic \<and> (in_ranges rs (canon c) \<or> in_ranges rs (lower_unit c))))"

fun cmem :: "bool \<Rightarrow> cset \<Rightarrow> cu \<Rightarrow> bool" where
  "cmem ic (In rs) c = in_folded ic rs c"
| "cmem ic (NotIn rs) c = (\<not> in_folded ic rs c)"

datatype rx =
    Lit jsstr
  | Cls cset
  | Star cset
  | Seq rx rx
  | Alt rx rx
  | Eps
  | WordB
  | Grp nat rx
  | Bol
  | Eol

type_synonym captures = "(nat \<times> jsstr) list"
type_synonym mstate = "cu option \<times> jsstr \<times> captures"

definition at_boundary :: "cu option \<Rightarrow> jsstr \<Rightarrow> bool" where
  "at_boundary p s =
     ((case p of None \<Rightarrow> False | Some c \<Rightarrow> is_word c) \<noteq>
      (case s of [] \<Rightarrow> False | c # _ \<Rightarrow> is_word c))"

definition ceq :: "bool \<Rightarrow> cu \<Rightarrow> cu \<Rightarrow> bool" where
  "ceq ic a x = (if ic then canon a = canon x else a = x)"

fun strip_lit :: "bool \<Rightarrow> jsstr \<Rightarrow> cu option \<Rightarrow> jsstr \<Rightarrow> (cu option \<times> jsstr) option" where
  "strip_lit ic [] p s = Some (p, s)"
| "strip_lit ic (a # w) p [] = None"
| "strip_lit ic (a # w) p (x # s) = (if ceq ic a x then strip_lit ic w (Some x) s else None)"

text \<open>A greedy star: the longest run first, then each shorter one, the empty run last.\<close>

fun star_states :: "bool \<Rightarrow> cset \<Rightarrow> cu option \<Rightarrow> jsstr \<Rightarrow> (cu option \<times> jsstr) list" where
  "star_states ic cs p [] = [(p, [])]"
| "star_states ic cs p (x # s) =
     (if cmem ic cs x then star_states ic cs (Some x) s @ [(p, x # s)] else [(p, x # s)])"

fun rxm :: "bool \<Rightarrow> rx \<Rightarrow> mstate \<Rightarrow> mstate list" where
  "rxm ic (Lit w) (p, s, c) =
     (case strip_lit ic w p s of None \<Rightarrow> [] | Some (p', s') \<Rightarrow> [(p', s', c)])"
| "rxm ic (Cls cs) (p, s, c) =
     (case s of [] \<Rightarrow> [] | x # xs \<Rightarrow> if cmem ic cs x then [(Some x, xs, c)] else [])"
| "rxm ic (Star cs) (p, s, c) = map (\<lambda>(p', s'). (p', s', c)) (star_states ic cs p s)"
| "rxm ic (Seq a b) st = concat (map (rxm ic b) (rxm ic a st))"
| "rxm ic (Alt a b) st = rxm ic a st @ rxm ic b st"
| "rxm ic Eps st = [st]"
| "rxm ic WordB (p, s, c) = (if at_boundary p s then [(p, s, c)] else [])"
| "rxm ic (Grp n r) (p, s, c) =
     map (\<lambda>(p', s', c'). (p', s', (n, take (length s - length s') s) # c')) (rxm ic r (p, s, c))"
| "rxm ic Bol (p, s, c) = (if p = None then [(p, s, c)] else [])"
| "rxm ic Eol (p, s, c) = (if s = [] then [(p, s, c)] else [])"

text \<open>
  \<open>rx_exec\<close> is the search of \<open>RegExp.prototype.exec\<close> without the \<open>g\<close> flag: the
  leftmost position at which a match attempt succeeds. The result lists the captures,
  group 0 (the whole match) first.
\<close>

fun rx_exec :: "bool \<Rightarrow> rx \<Rightarrow> cu option \<Rightarrow> jsstr \<Rightarrow> captures option" where
  "rx_exec ic r p [] =
     (case rxm ic r (p, [], []) of [] \<Rightarrow> None | (p', s', c) # _ \<Rightarrow> Some ((0, []) # c))"
| "rx_exec ic r p (x # xs) =
     (case rxm ic r (p, x # xs, []) of
        [] \<Rightarrow> rx_exec ic r (Some x) xs
      | (p', s', c) # _ \<Rightarrow> Some ((0, take (length (x # xs) - length s') (x # xs)) # c))"

definition rx_match :: "bool \<Rightarrow> rx \<Rightarrow> jsstr \<Rightarrow> captures option" where
  "rx_match ic r s = rx_exec ic r None s"

definition rx_test :: "bool \<Rightarrow> rx \<Rightarrow> jsstr \<Rightarrow> bool" where
  "rx_test ic r s = (rx_match ic r s \<noteq> None)"

text \<open>\<open>m[n]\<close> of a match array; \<open>None\<close> is \<open>undefined\<close>.\<close>

definition grp :: "captures \<Rightarrow> nat \<Rightarrow> jsstr option" where
  "grp c n = map_of c n"

text \<open>\<open>r1|r2|...|rn\<close>, and the common case \<open>w1|w2|...|wn\<close> of literal words.\<close>

fun alt_list :: "rx list \<Rightarrow> rx" where
  "alt_list [] = Cls (In [])"
| "alt_list [r] = r"
| "alt_list (r # rs) = Alt r (alt_list rs)"

definition alts :: "jsstr list \<Rightarrow> rx" where
  "alts ws = alt_list (map Lit ws)"

fun seqs :: "rx list \<Rightarrow> rx" where
  "seqs [] = Eps"
| "seqs [r] = r"
| "seqs (r # rs) = Seq r (seqs rs)"

text \<open>\<open>\s\<close> (white space and line terminators), \<open>\d\<close> and the dot.\<close>

definition ws_ranges :: "(cu \<times> cu) list" where
  "ws_ranges = [(9, 13), (32, 32), (160, 160), (5760, 5760), (8192, 8202), (8232, 8233),
                (8239, 8239), (8287, 8287), (12288, 12288), (65279, 65279)]"

definition ws_class :: cset where
  "ws_class = In ws_ranges"

definition digit_class :: cset where
  "digit_class = In [(48, 57)]"

definition dot_class :: cset where
  "dot_class = NotIn [(10, 10), (13, 13), (8232, 8233)]"

section \<open>Occurrences of words\<close>

text \<open>
  Predicates to state what a pattern of literal words finds: the word matches at the
  head of a text, or somewhere in it, exactly or up to the case of ASCII letters; and the
  specification's view of a keyword test, some word of the list is a substring.
\<close>

definition lit_at :: "bool \<Rightarrow> jsstr \<Rightarrow> jsstr \<Rightarrow> bool" where
  "lit_at ic w s = (\<exists>x r. s = x @ r \<and> list_all2 (ceq ic) w x)"

definition lit_in :: "bool \<Rightarrow> jsstr \<Rightarrow> jsstr \<Rightarrow> bool" where
  "lit_in ic w s = (\<exists>pre x post. s = pre @ x @ post \<and> list_all2 (ceq ic) w x)"

text \<open>The code unit before the position that follows the prefix \<open>pre\<close>.\<close>

definition prev_of :: "cu option \<Rightarrow> jsstr \<Rightarrow> cu option" where
  "prev_of p pre = (if pre = [] then p else Some (last pre))"

definition mentions :: "jsstr list \<Rightarrow> jsstr \<Rightarrow> bool" where
  "mentions ws t = (\<exists>w \<in> set ws. sublist w t)"

section \<open>Urgency, category and priority from keywords\<close>

definition urgent_tier :: "jsstr list" where
  "urgent_tier = map asc [''urgent'', ''emergency'', ''asap'', ''immediately'', ''critical'',
                          ''dying'', ''serious'']"

definition low_tier :: "jsstr list" where
  "low_tier = map asc [''low'', ''not urgent'', ''can wait'', ''flexible'', ''when possible'',
                       ''whenever'']"

definition high_tier :: "jsstr list" where
  "high_tier = map asc [''high'', ''soon'', ''needed'', ''required'', ''fast'', ''quick'']"

definition medium_tier :: "jsstr list" where
  "medium_tier = map asc [''medium'', ''normal'', ''regular'', ''moderate'', ''standard'']"

text \<open>\<open>extractUrgency\<close>: four tests with the flag \<open>i\<close> on the lower-cased text; \<open>None\<close> is \<open>null\<close>.\<close>

definition extractUrgency :: "jsstr \<Rightarrow> string option" where
  "extractUrgency text =
    (let t = toLowerCase text in
     if rx_test True (alts urgent_tier) t then Some ''urgent''
     else if rx_test True (alts low_tier) t then Some ''low''
     else if rx_test True (alts high_tier) t then Some ''high''
     else if rx_test True (alts medium_tier) t then Some ''medium''
     else None)"

text \<open>
  The keyword lists of \<open>categorizeRequest\<close>. The words in Devanagari and Telugu script are
  given by their code units: rakt, khoon (blood, Hindi) and raktam (blood, Telugu);
  aapatkaal, turant (Hindi) and atyavasaram (Telugu); bujurg, dava (Hindi) and vruddhulu,
  mandulu (Telugu); shikayat, samasya (Hindi) and phiryadu, samasya (Telugu).
\<close>

definition blood_words :: "jsstr list" where
  "blood_words =
     map asc [''blood'', ''donate'', ''donation'', ''transfusion'', ''plasma'', ''platelets''] @
     [[2352, 2325, 2381, 2340], [2326, 2370, 2344], [3120, 3093, 3149, 3108, 3074]] @
     map asc [''donor'', ''o+'', ''o-'', ''a+'', ''a-'', ''b+'', ''b-'', ''ab+'', ''ab-'',
              ''surgery'', ''operation'', ''hospital'', ''patient'']"

definition emergency_rx :: rx where
  "emergency_rx = alt_list
     (map Lit (map asc [''emergency'', ''urgent'', ''critical'', ''immediate'', ''asap'']) @
      [seqs [Lit (asc ''help''), Star dot_class, Lit (asc ''urgent'')]] @
      map Lit ([[2310, 2346, 2366, 2340, 2325, 2366, 2354], [2340, 2369, 2352, 2306, 2340],
                [3077, 3108, 3149, 3119, 3125, 3128, 3120, 3074]] @
               map asc [''911'', ''108'', ''ambulance'']))"

definition elder_words :: "jsstr list" where
  "elder_words =
     map asc [''elderly'', ''old'', ''senior'', ''medicine'', ''grocery'', ''care'', ''caregiver'',
              ''nursing'', ''assistance''] @
     [[2348, 2369, 2332, 2369, 2352, 2381, 2327], [2342, 2357, 2366],
      [3125, 3139, 3110, 3149, 3111, 3137, 3122, 3137], [3118, 3074, 3110, 3137, 3122, 3137]] @
     map asc [''grandfather'', ''grandmother'', ''parent'', ''mom'', ''dad'', ''mother'', ''father'']"

definition complaint_words :: "jsstr list" where
  "complaint_words =
     map asc [''complaint'', ''problem'', ''issue'', ''broken'', ''not working'', ''damaged'',
              ''fault'', ''repair'', ''fix''] @
     [[2358, 2367, 2325, 2366, 2351, 2340], [2360, 2350, 2360, 2381, 2351, 2366],
      [3115, 3135, 3120, 3149, 3119, 3134, 3110, 3137], [3128, 3118, 3128, 3149, 3119]] @
     map asc [''street'', ''light'', ''road'', ''water'', ''electricity'', ''garbage'', ''sewage'',
              ''drainage'', ''pothole'', ''noise'', ''pollution'']"

definition categorizeRequest :: "jsstr \<Rightarrow> string" where
  "categorizeRequest text =
    (let lowerText = toLowerCase text in
     if rx_test False (alts blood_words) lowerText then ''blood_request''
     else if rx_test False emergency_rx lowerText then ''emergency''
     else if rx_test False (alts elder_words) lowerText then ''elder_support''
     else if rx_test False (alts complaint_words) lowerText then ''complaint''
     else ''general_inquiry'')"

text \<open>
  \<open>determinePriority\<close>; the native words are aapatkaal, turant, atyavasaram (urgent),
  jaldi, tvaraga (high) and the two phrases for "when there is time" (low).
\<close>

definition determinePriority :: "jsstr \<Rightarrow> string" where
  "determinePriority text =
    (let lowerText = toLowerCase text in
     if rx_test False (alts (map asc [''emergency'', ''urgent'', ''critical''] @
          [[2310, 2346, 2366, 2340, 2325, 2366, 2354], [2340, 2369, 2352, 2306, 2340],
           [3077, 3108, 3149, 3119, 3125, 3128, 3120, 3074]])) lowerText then ''urgent''
     else if rx_test False (alts (map asc [''important'', ''asap'', ''soon''] @
          [[2332, 2354, 2381, 2342, 2368], [3108, 3149, 3125, 3120, 3095, 3134]])) lowerText
       then ''high''
     else if rx_test False (alts (map asc [''whenever'', ''no rush''] @
          [[2332, 2348, 32, 2360, 2350, 2351, 32, 2361, 2379],
           [3128, 3118, 3119, 3074, 32, 3081, 3112, 3149, 3112, 3114, 3149, 3114, 3137, 3105,
            3137]])) lowerText then ''low''
     else ''medium'')"

section \<open>Slot maps and the completeness check\<close>

text \<open>
  The values a slot can hold. \<open>JDec m k\<close> is the decimal literal \<open>m / 10^k\<close>, \<open>JDate t\<close>
  a date, \<open>t\<close> milliseconds after the epoch. A slot map is a JavaScript object: a key
  that is not there reads as \<open>undefined\<close>, which is \<open>None\<close> here. \<open>truthy\<close> is the
  conversion to boolean that \<open>!\<close>, \<open>||\<close> and \<open>if\<close> apply.
\<close>

datatype jsval =
    JNull
  | JBool bool
  | JNum int
  | JDec int nat
  | JStr jsstr
  | JArr "jsval list"
  | JObj "(string \<times> jsval) list"
  | JDate nat

fun truthy :: "jsval \<Rightarrow> bool" where
  "truthy JNull = False"
| "truthy (JBool b) = b"
| "truthy (JNum n) = (n \<noteq> 0)"
| "truthy (JDec m k) = (m \<noteq> 0)"
| "truthy (JStr s) = (s \<noteq> [])"
| "truthy (JArr xs) = True"
| "truthy (JObj fs) = True"
| "truthy (JDate d) = True"

type_synonym slots = "string \<rightharpoonup> jsval"

text \<open>\<open>!info.key\<close>\<close>

definition lacks :: "slots \<Rightarrow> string \<Rightarrow> bool" where
  "lacks info k = (case info k of None \<Rightarrow> True | Some v \<Rightarrow> \<not> truthy v)"

definition getMissingRequiredInfo :: "string \<Rightarrow> slots \<Rightarrow> string list" where
  "getMissingRequiredInfo category extractedInfo =
     (if category = ''blood_request'' \<and> lacks extractedInfo ''bloodType''
      then [''bloodType''] else []) @
     (if category = ''elder_support'' \<and> lacks extractedInfo ''serviceType''
         \<and> lacks extractedInfo ''supportType''
      then [''serviceType''] else []) @
     (if category = ''complaint'' \<and> lacks extractedInfo ''complaintCategory''
      then [''complaintCategory''] else [])"

text \<open>
  The literal alternatives of the emergency pattern, that is the pattern without
  \<open>help.*urgent\<close>, and a check that a keyword list is free of upper-case letters.
\<close>

definition emergency_words :: "jsstr list" where
  "emergency_words =
     map asc [''emergency'', ''urgent'', ''critical'', ''immediate'', ''asap''] @
     [[2310, 2346, 2366, 2340, 2325, 2366, 2354], [2340, 2369, 2352, 2306, 2340],
      [3077, 3108, 3149, 3119, 3125, 3128, 3120, 3074]] @
     map asc [''911'', ''108'', ''ambulance'']"

definition no_upper :: "jsstr list \<Rightarrow> bool" where
  "no_upper ws = list_all (list_all (\<lambda>c. \<not> is_upper c)) ws"

section \<open>Global replacement\<close>

text \<open>
  \<open>s.replace(/r/g, rep)\<close> for a replacement text without \<open>$\<close>: matches are found
  left to right, each search starting where the last match ended; after an empty match
  the next code unit is copied and the search goes on behind it.
\<close>

function rx_replace_all :: "bool \<Rightarrow> rx \<Rightarrow> jsstr \<Rightarrow> cu option \<Rightarrow> jsstr \<Rightarrow> jsstr" where
  "rx_replace_all ic r rep p [] = (case rxm ic r (p, [], []) of [] \<Rightarrow> [] | _ # _ \<Rightarrow> rep)"
| "rx_replace_all ic r rep p (x # xs) =
     (case rxm ic r (p, x # xs, []) of
        [] \<Rightarrow> x # rx_replace_all ic r rep (Some x) xs
      | (p', s', c) # _ \<Rightarrow>
          if length s' < length (x # xs) then rep @ rx_replace_all ic r rep p' s'
          else rep @ x # rx_replace_all ic r rep (Some x) xs)"
  by pat_completeness auto
termination
  by (relation "measure (\<lambda>(ic, r, rep, p, s). length s)") auto

text \<open>\<open>s.replace(pat, rep)\<close> with a string pattern: the first occurrence only.\<close>

fun replace_first :: "jsstr \<Rightarrow> jsstr \<Rightarrow> jsstr \<Rightarrow> jsstr" where
  "replace_first pat rep [] = (if pat = [] then rep else [])"
| "replace_first pat rep (x # xs) =
     (if starts_with (x # xs) pat then rep @ drop (length pat) (x # xs)
      else x # replace_first pat rep xs)"

text \<open>
  \<open>String.prototype.toUpperCase\<close>, on the ASCII letters: the program applies it only to
  text that a pattern of ASCII letters, signs and white space has matched.
\<close>

definition upper_unit :: "cu \<Rightarrow> cu" where
  "upper_unit c = (if is_lower c then c - 32 else c)"

definition toUpperCase :: "jsstr \<Rightarrow> jsstr" where
  "toUpperCase s = map upper_unit s"

text \<open>\<open>String.prototype.trim\<close> removes the code units of \<open>\s\<close> at both ends.\<close>

definition trim :: "jsstr \<Rightarrow> jsstr" where
  "trim s = rev (dropWhile (cmem False ws_class) (rev (dropWhile (cmem False ws_class) s)))"

definition plus :: "cset \<Rightarrow> rx" where
  "plus cs = Seq (Cls cs) (Star cs)"

section \<open>Language detection\<close>

text \<open>
  \<open>detectLanguageFromText\<close>. The native keyword lists are, in Telugu script: raktam,
  kavali, avasaram, positive, negative, atyavasaram, tvaraga; in Devanagari: khoon, rakt,
  chahie, aavashyak, positive, negative, turant, aapatkaal.
\<close>

definition telugu_block :: cset where
  "telugu_block = In [(3072, 3199)]"

definition devanagari_block :: cset where
  "devanagari_block = In [(2304, 2431)]"

definition telugu_keywords :: "jsstr list" where
  "telugu_keywords =
     [[3120, 3093, 3149, 3108, 3074], [3093, 3134, 3125, 3134, 3122, 3135],
      [3077, 3125, 3128, 3120, 3074], [3114, 3134, 3100, 3135, 3103, 3135, 3125, 3149],
      [3112, 3142, 3095, 3103, 3135, 3125, 3149],
      [3077, 3108, 3149, 3119, 3125, 3128, 3120, 3074], [3108, 3149, 3125, 3120, 3095, 3134]]"

definition hindi_keywords :: "jsstr list" where
  "hindi_keywords =
     [[2326, 2370, 2344], [2352, 2325, 2381, 2340], [2330, 2366, 2361, 2367, 2319],
      [2310, 2357, 2358, 2381, 2351, 2325], [2346, 2377, 2332, 2367, 2335, 2367, 2357],
      [2344, 2375, 2327, 2375, 2335, 2367, 2357], [2340, 2369, 2352, 2306, 2340],
      [2310, 2346, 2366, 2340, 2325, 2366, 2354]]"

definition roman_telugu_rx :: rx where
  "roman_telugu_rx = seqs [WordB,
     Grp 1 (alts (map asc [''rakthamu'', ''kavali'', ''avasaram'', ''positive'', ''negative'',
                           ''athyavasaram'', ''thvaraga''])),
     WordB]"

definition roman_hindi_rx :: rx where
  "roman_hindi_rx = seqs [WordB,
     Grp 1 (alts (map asc [''khoon'', ''rakth'', ''chahiye'', ''aavashyak'', ''positive'',
                           ''negative'', ''turant'', ''aapatkaal''])),
     WordB]"

definition detectLanguageFromText :: "jsstr \<Rightarrow> string" where
  "detectLanguageFromText text =
    (if rx_test False (Cls telugu_block) text \<or> rx_test False (alts telugu_keywords) text
       then ''te''
     else if rx_test False (Cls devanagari_block) text \<or> rx_test False (alts hindi_keywords) text
       then ''hi''
     else if rx_test True roman_telugu_rx text then ''te''
     else if rx_test True roman_hindi_rx text then ''hi''
     else ''en'')"

text \<open>
  The detector as the specification words it: Devanagari script first, then Telugu
  script, then the native keyword lists in the same order, then the romanized lists.
\<close>

definition spec_detectLanguage :: "jsstr \<Rightarrow> string" where
  "spec_detectLanguage text =
    (if rx_test False (Cls devanagari_block) text then ''hi''
     else if rx_test False (Cls telugu_block) text then ''te''
     else if rx_test False (alts hindi_keywords) text then ''hi''
     else if rx_test False (alts telugu_keywords) text then ''te''
     else if rx_test True roman_hindi_rx text then ''hi''
     else if rx_test True roman_telugu_rx text then ''te''
     else ''en'')"

section \<open>Normalisation to English\<close>

text \<open>
  \<open>translateToEnglish\<close> is a chain of \<open>.replace(/w1|w2/gi, 'english')\<close> calls, first the
  Hindi ones, then the Telugu ones. Each row below is one call: the alternatives of its
  pattern, in order, and the replacement.
\<close>

definition hindi_table :: "(jsstr list \<times> jsstr) list" where
  "hindi_table =
    [([[2352, 2325, 2381, 2340], [2326, 2370, 2344]], asc ''blood''),
     ([[2352, 2325, 2381, 2340, 2342, 2366, 2344]], asc ''blood donation''),
     ([[2330, 2366, 2361, 2367, 2319], [2310, 2357, 2358, 2381, 2351, 2325]], asc ''need''),
     ([[2340, 2369, 2352, 2306, 2340], [2340, 2340, 2381, 2325, 2366, 2354]], asc ''urgent''),
     ([[2310, 2346, 2366, 2340, 2325, 2366, 2354]], asc ''emergency''),
     ([[2348, 2369, 2332, 2369, 2352, 2381, 2327]], asc ''elderly''),
     ([[2342, 2357, 2366], [2342, 2357, 2366, 2312]], asc ''medicine''),
     ([[2325, 2367, 2352, 2366, 2344, 2366]], asc ''grocery''),
     ([[2342, 2375, 2326, 2349, 2366, 2354]], asc ''care''),
     ([[2358, 2367, 2325, 2366, 2351, 2340]], asc ''complaint''),
     ([[2360, 2350, 2360, 2381, 2351, 2366]], asc ''problem''),
     ([[2360, 2337, 2364, 2325]], asc ''road''),
     ([[2348, 2340, 2381, 2340, 2368], [2354, 2366, 2311, 2335]], asc ''light''),
     ([[2346, 2366, 2344, 2368]], asc ''water''),
     ([[2348, 2367, 2332, 2354, 2368]], asc ''electricity''),
     ([[2325, 2330, 2352, 2366]], asc ''garbage''),
     ([[2309, 2360, 2381, 2346, 2340, 2366, 2354]], asc ''hospital''),
     ([[2350, 2352, 2368, 2332], [2352, 2379, 2327, 2368]], asc ''patient''),
     ([[2360, 2352, 2381, 2332, 2352, 2368], [2321, 2346, 2352, 2375, 2358, 2344]], asc ''surgery''),
     ([[2319, 32, 2346, 2377, 2332, 2367, 2335, 2367, 2357]], asc ''A positive''),
     ([[2319, 32, 2344, 2375, 2327, 2375, 2335, 2367, 2357]], asc ''A negative''),
     ([[2348, 2368, 32, 2346, 2377, 2332, 2367, 2335, 2367, 2357]], asc ''B positive''),
     ([[2348, 2368, 32, 2344, 2375, 2327, 2375, 2335, 2367, 2357]], asc ''B negative''),
     ([[2319, 2348, 2368, 32, 2346, 2377, 2332, 2367, 2335, 2367, 2357]], asc ''AB positive''),
     ([[2319, 2348, 2368, 32, 2344, 2375, 2327, 2375, 2335, 2367, 2357]], asc ''AB negative''),
     ([[2323, 32, 2346, 2377, 2332, 2367, 2335, 2367, 2357]], asc ''O positive''),
     ([[2323, 32, 2344, 2375, 2327, 2375, 2335, 2367, 2357]], asc ''O negative'')]"

definition telugu_table :: "(jsstr list \<times> jsstr) list" where
  "telugu_table =
    [([[3120, 3093, 3149, 3108, 3074]], asc ''blood''),
     ([[3120, 3093, 3149, 3108, 3110, 3134, 3112, 3074]], asc ''blood donation''),
     ([[3093, 3134, 3125, 3134, 3122, 3135], [3077, 3125, 3128, 3120, 3074]], asc ''need''),
     ([[3077, 3108, 3149, 3119, 3125, 3128, 3120, 3074], [3108, 3093, 3149, 3127, 3107, 3074]], asc ''urgent''),
     ([[3125, 3139, 3110, 3149, 3111, 3137, 3122, 3137], [3114, 3142, 3110, 3149, 3110, 3122, 3137]], asc ''elderly''),
     ([[3118, 3074, 3110, 3137], [3118, 3074, 3110, 3137, 3122, 3137]], asc ''medicine''),
     ([[3093, 3135, 3120, 3134, 3107, 3134]], asc ''grocery''),
     ([[3128, 3074, 3120, 3093, 3149, 3127, 3107]], asc ''care''),
     ([[3115, 3135, 3120, 3149, 3119, 3134, 3110, 3137]], asc ''complaint''),
     ([[3128, 3118, 3128, 3149, 3119]], asc ''problem''),
     ([[3120, 3147, 3105, 3149, 3105, 3137]], asc ''road''),
     ([[3122, 3144, 3103, 3149]], asc ''light''),
     ([[3112, 3136, 3120, 3137]], asc ''water''),
     ([[3093, 3120, 3142, 3074, 3103, 3149]], asc ''electricity''),
     ([[3098, 3142, 3108, 3149, 3108]], asc ''garbage''),
     ([[3078, 3128, 3137, 3114, 3108, 3149, 3120, 3135]], asc ''hospital''),
     ([[3120, 3147, 3095, 3135]], asc ''patient''),
     ([[3126, 3128, 3149, 3108, 3149, 3120, 3098, 3135, 3093, 3135, 3108, 3149, 3128]], asc ''surgery''),
     ([[3086, 32, 3114, 3134, 3100, 3135, 3103, 3135, 3125, 3149]], asc ''A positive''),
     ([[3086, 32, 3112, 3142, 3095, 3103, 3135, 3125, 3149]], asc ''A negative''),
     ([[3116, 3135, 32, 3114, 3134, 3100, 3135, 3103, 3135, 3125, 3149]], asc ''B positive''),
     ([[3116, 3135, 32, 3112, 3142, 3095, 3103, 3135, 3125, 3149]], asc ''B negative''),
     ([[3086, 3116, 3135, 32, 3114, 3134, 3100, 3135, 3103, 3135, 3125, 3149]], asc ''AB positive''),
     ([[3086, 3116, 3135, 32, 3112, 3142, 3095, 3103, 3135, 3125, 3149]], asc ''AB negative''),
     ([[3091, 32, 3114, 3134, 3100, 3135, 3103, 3135, 3125, 3149]], asc ''O positive''),
     ([[3091, 32, 3112, 3142, 3095, 3103, 3135, 3125, 3149]], asc ''O negative'')]"

fun apply_table :: "(jsstr list \<times> jsstr) list \<Rightarrow> jsstr \<Rightarrow> jsstr" where
  "apply_table [] t = t"
| "apply_table ((ws, rep) # rows) t = apply_table rows (rx_replace_all True (alts ws) rep None t)"

definition native_blocks :: cset where
  "native_blocks = In [(2304, 2431), (3072, 3199)]"

definition translateToEnglish :: "jsstr \<Rightarrow> jsstr" where
  "translateToEnglish text =
    (if \<not> rx_test False (Cls native_blocks) text then text
     else apply_table telugu_table (apply_table hindi_table text))"

section \<open>Blood type extraction\<close>

text \<open>
  The four patterns of \<open>extractBloodType\<close>, all with the flag \<open>i\<close>. The first lists
  every alternative twice, in upper and in lower case, as the source does. In the
  native patterns the group letters are e, bi, ebi, o and the Rh words positive,
  negative; the nouns are khoon, rakt (Hindi) and raktam (Telugu).
\<close>

definition group_rh :: "string \<Rightarrow> string \<Rightarrow> rx" where
  "group_rh g rh = seqs [Lit (asc g), Star ws_class, Lit (asc rh)]"

definition bloodTypePattern :: rx where
  "bloodTypePattern = seqs [WordB,
     Grp 1 (alt_list
       (map Lit (map asc [''O+'', ''O-'', ''A+'', ''A-'', ''B+'', ''B-'', ''AB+'', ''AB-'']) @
        [group_rh ''O'' ''positive'', group_rh ''O'' ''negative'',
         group_rh ''A'' ''positive'', group_rh ''A'' ''negative'',
         group_rh ''B'' ''positive'', group_rh ''B'' ''negative'',
         group_rh ''AB'' ''positive'', group_rh ''AB'' ''negative''] @
        map Lit (map asc [''o+'', ''o-'', ''a+'', ''a-'', ''b+'', ''b-'', ''ab+'', ''ab-'']) @
        [group_rh ''o'' ''positive'', group_rh ''o'' ''negative'',
         group_rh ''a'' ''positive'', group_rh ''a'' ''negative'',
         group_rh ''b'' ''positive'', group_rh ''b'' ''negative'',
         group_rh ''ab'' ''positive'', group_rh ''ab'' ''negative''])),
     WordB]"

definition hindi_positive :: jsstr where
  "hindi_positive = [2346, 2377, 2332, 2367, 2335, 2367, 2357]"

definition hindi_negative :: jsstr where
  "hindi_negative = [2344, 2375, 2327, 2375, 2335, 2367, 2357]"

definition telugu_positive :: jsstr where
  "telugu_positive = [3114, 3134, 3100, 3135, 3103, 3135, 3125, 3149]"

definition telugu_negative :: jsstr where
  "telugu_negative = [3112, 3142, 3095, 3103, 3135, 3125, 3149]"

definition alternativePattern :: rx where
  "alternativePattern = seqs [WordB,
     Grp 1 (alts (map asc [''need'', ''want'', ''require'', ''looking for''] @
                  [[2330, 2366, 2361, 2367, 2319], [2310, 2357, 2358, 2381, 2351, 2325],
                   [3093, 3134, 3125, 3134, 3122, 3135], [3077, 3125, 3128, 3120, 3074]])),
     plus ws_class,
     Grp 2 (alts (map asc [''A'', ''B'', ''AB'', ''O''])),
     Star ws_class,
     Grp 3 (alts (map asc [''positive'', ''negative'', ''+'', ''-''] @
                  [hindi_positive, hindi_negative, telugu_positive, telugu_negative]))]"

definition hindiPattern :: rx where
  "hindiPattern = seqs [WordB,
     Grp 1 (alts [[2319], [2348, 2368], [2319, 2348, 2368], [2323]]),
     Star ws_class,
     Grp 2 (alts [hindi_positive, hindi_negative, asc ''+'', asc ''-'']),
     Star ws_class,
     Grp 3 (alts [[2326, 2370, 2344], [2352, 2325, 2381, 2340]])]"

definition teluguPattern :: rx where
  "teluguPattern = seqs [WordB,
     Grp 1 (alts [[3086], [3116, 3135], [3086, 3116, 3135], [3091]]),
     Star ws_class,
     Grp 2 (alts [telugu_positive, telugu_negative, asc ''+'', asc ''-'']),
     Star ws_class,
     Grp 3 (alts [[3120, 3093, 3149, 3108, 3074]])]"

text \<open>\<open>bloodGroupMap[g] || g\<close> for the two lookup tables.\<close>

definition hindi_bloodGroupMap :: "jsstr \<rightharpoonup> jsstr" where
  "hindi_bloodGroupMap = map_of
     [([2319], asc ''A''), ([2348, 2368], asc ''B''), ([2319, 2348, 2368], asc ''AB''),
      ([2323], asc ''O'')]"

definition telugu_bloodGroupMap :: "jsstr \<rightharpoonup> jsstr" where
  "telugu_bloodGroupMap = map_of
     [([3086], asc ''A''), ([3116, 3135], asc ''B''), ([3086, 3116, 3135], asc ''AB''),
      ([3091], asc ''O'')]"

definition lookup_or_self :: "(jsstr \<rightharpoonup> jsstr) \<Rightarrow> jsstr \<Rightarrow> jsstr" where
  "lookup_or_self m g = (case m g of Some v \<Rightarrow> if v = [] then g else v | None \<Rightarrow> g)"

text \<open>
  \<open>m[n]\<close> as a string. Every group the program reads is mandatory in its pattern, so it
  is set whenever the pattern matches; for an unset group the model gives the empty string.
\<close>

definition grp_text :: "captures \<Rightarrow> nat \<Rightarrow> jsstr" where
  "grp_text c n = (case grp c n of Some t \<Rightarrow> t | None \<Rightarrow> [])"

definition extractBloodType :: "jsstr \<Rightarrow> jsstr option" where
  "extractBloodType text =
    (case rx_match True bloodTypePattern text of
       Some m \<Rightarrow>
         Some (replace_first (asc ''NEGATIVE'') (asc ''-'')
                (replace_first (asc ''POSITIVE'') (asc ''+'')
                  (rx_replace_all False (plus ws_class) [] None (toUpperCase (grp_text m 1)))))
     | None \<Rightarrow>
    (case rx_match True alternativePattern text of
       Some altMatch \<Rightarrow>
         (let bloodGroup = toUpperCase (grp_text altMatch 2);
              rhFactor = toLowerCase (grp_text altMatch 3);
              rh = (if rhFactor = asc ''positive'' \<or> rhFactor = asc ''+''
                       \<or> rhFactor = hindi_positive \<or> rhFactor = telugu_positive
                    then asc ''+'' else asc ''-'')
          in Some (bloodGroup @ rh))
     | None \<Rightarrow>
    (case rx_match True hindiPattern text of
       Some hindiMatch \<Rightarrow>
         (let bloodGroup = lookup_or_self hindi_bloodGroupMap (grp_text hindiMatch 1);
              rh = (if grp_text hindiMatch 2 = hindi_positive \<or> grp_text hindiMatch 2 = asc ''+''
                    then asc ''+'' else asc ''-'')
          in Some (bloodGroup @ rh))
     | None \<Rightarrow>
    (case rx_match True teluguPattern text of
       Some teluguMatch \<Rightarrow>
         (let bloodGroup = lookup_or_self telugu_bloodGroupMap (grp_text teluguMatch 1);
              rh = (if grp_text teluguMatch 2 = telugu_positive \<or> grp_text teluguMatch 2 = asc ''+''
                    then asc ''+'' else asc ''-'')
          in Some (bloodGroup @ rh))
     | None \<Rightarrow> None))))"

text \<open>
  Well-formedness of a replacement table: every pattern word is non-empty, starts with a
  code unit of the Devanagari or Telugu block and has only such code units and spaces;
  every replacement is non-empty text outside the two blocks that does not start with a
  space.
\<close>

definition is_native :: "cu \<Rightarrow> bool" where
  "is_native c = in_ranges [(2304, 2431), (3072, 3199)] c"

definition pattern_ok :: "jsstr \<Rightarrow> bool" where
  "pattern_ok v = (v \<noteq> [] \<and> is_native (hd v) \<and> list_all (\<lambda>c. is_native c \<or> c = 32) v)"

definition rep_ok :: "jsstr \<Rightarrow> bool" where
  "rep_ok r = (r \<noteq> [] \<and> hd r \<noteq> 32 \<and> list_all (\<lambda>c. \<not> is_native c) r)"

definition table_ok :: "(jsstr list \<times> jsstr) list \<Rightarrow> bool" where
  "table_ok rows = list_all (\<lambda>(ws, rep). rep_ok rep \<and> list_all pattern_ok ws) rows"

section \<open>Slot extraction\<close>

text \<open>
  \<open>parseInt\<close> of a run of decimal digits (exact here; the program's doubles are exact up
  to 2^53), and the bounded greedy repetition \<open>c{0,n}\<close> of a class.
\<close>

definition parseInt_digits :: "jsstr \<Rightarrow> int" where
  "parseInt_digits ds = foldl (\<lambda>a d. 10 * a + (d - 48)) 0 ds"

fun upto_n :: "cset \<Rightarrow> nat \<Rightarrow> rx" where
  "upto_n cs 0 = Eps"
| "upto_n cs (Suc n) = Alt (Seq (Cls cs) (upto_n cs n)) Eps"

definition upper_class :: cset where
  "upper_class = In [(65, 90)]"

definition lower_class :: cset where
  "lower_class = In [(97, 122)]"

definition unitsPattern :: rx where
  "unitsPattern = seqs [Grp 1 (plus digit_class), Star ws_class,
                        Grp 2 (alts (map asc [''unit'', ''pint'', ''bag'']))]"

definition hospitalPattern :: rx where
  "hospitalPattern = seqs [alts (map asc [''at'', ''in'', ''from'']), plus ws_class,
     Grp 1 (seqs [Cls upper_class, plus (In ([(97, 122), (65, 90)] @ ws_ranges)),
                  alts (map asc [''hospital'', ''medical'', ''clinic'', ''centre'', ''center''])])]"

definition agePattern :: rx where
  "agePattern = seqs [Grp 1 (seqs [Cls digit_class, Cls digit_class, upto_n digit_class 1]),
                      Star ws_class, alts (map asc [''year'', ''yr'', ''age''])]"

definition elderNamePattern :: rx where
  "elderNamePattern = seqs [alts (map asc [''for'', ''help'']), plus ws_class,
     Alt (Seq (Lit (asc ''my'')) (plus ws_class)) Eps,
     alts (map asc [''mother'', ''father'', ''grandmother'', ''grandfather'', ''grandma'',
                    ''grandpa'']),
     plus ws_class,
     Grp 1 (Seq (Cls upper_class) (plus lower_class))]"

definition complaintLocationPattern :: rx where
  "complaintLocationPattern = seqs [alts (map asc [''at'', ''in'', ''near'']), plus ws_class,
     Grp 1 (Seq (Cls upper_class) (plus (In ([(97, 122), (65, 90)] @ ws_ranges @ [(44, 44)]))))]"

text \<open>\<open>lowerMessage.includes(w1) || lowerMessage.includes(w2) || ...\<close>\<close>

definition includes_any :: "jsstr \<Rightarrow> string list \<Rightarrow> bool" where
  "includes_any s ws = list_ex (\<lambda>w. js_includes s (asc w)) ws"

text \<open>
  \<open>new Date()\<close> is the clock reading \<open>now\<close>, in milliseconds; a day later is
  \<open>now + 86400000\<close>.
\<close>

definition extract_blood :: "nat \<Rightarrow> jsstr \<Rightarrow> slots \<Rightarrow> slots" where
  "extract_blood now message info0 =
    (let lowerMessage = toLowerCase message;
         info1 = (case extractBloodType message of
                    Some b \<Rightarrow> if b \<noteq> [] then info0(''bloodType'' \<mapsto> JStr b) else info0
                  | None \<Rightarrow> info0);
         info2 = (case rx_match True unitsPattern message of
                    Some m \<Rightarrow> info1(''unitsNeeded'' \<mapsto> JNum (parseInt_digits (grp_text m 1)))
                  | None \<Rightarrow> info1);
         info3 = (case rx_match True hospitalPattern message of
                    Some m \<Rightarrow> info2(''hospitalName'' \<mapsto> JStr (trim (grp_text m 1)))
                  | None \<Rightarrow> info2);
         info4 =
           (if includes_any lowerMessage [''my mother'', ''mom'']
              then info3(''relationship'' \<mapsto> JStr (asc ''Mother''))
            else if includes_any lowerMessage [''my father'', ''dad'']
              then info3(''relationship'' \<mapsto> JStr (asc ''Father''))
            else if includes_any lowerMessage [''my brother'']
              then info3(''relationship'' \<mapsto> JStr (asc ''Brother''))
            else if includes_any lowerMessage [''my sister'']
              then info3(''relationship'' \<mapsto> JStr (asc ''Sister''))
            else if includes_any lowerMessage [''my friend'']
              then info3(''relationship'' \<mapsto> JStr (asc ''Friend''))
            else if includes_any lowerMessage [''myself'', ''for me'']
              then info3(''relationship'' \<mapsto> JStr (asc ''Self''))
            else info3)
     in if includes_any lowerMessage [''urgent'', ''emergency'', ''immediately'']
          then info4(''urgencyLevel'' \<mapsto> JStr (asc ''urgent''), ''requiredDate'' \<mapsto> JDate now)
        else if includes_any lowerMessage [''today'']
          then info4(''requiredDate'' \<mapsto> JDate now)
        else if includes_any lowerMessage [''tomorrow'']
          then info4(''requiredDate'' \<mapsto> JDate (now + 86400000))
        else info4)"

definition service :: "slots \<Rightarrow> string \<Rightarrow> string \<Rightarrow> slots" where
  "service info serviceType supportType =
     info(''serviceType'' \<mapsto> JStr (asc serviceType), ''supportType'' \<mapsto> JArr [JStr (asc supportType)])"

definition extract_elder :: "jsstr \<Rightarrow> slots \<Rightarrow> slots" where
  "extract_elder message info0 =
    (let lowerMessage = toLowerCase message;
         info1 = (case rx_match True agePattern message of
                    Some m \<Rightarrow> info0(''age'' \<mapsto> JStr (grp_text m 1))
                  | None \<Rightarrow> info0);
         info2 = (case rx_match True elderNamePattern message of
                    Some m \<Rightarrow> info1(''elderName'' \<mapsto> JStr (grp_text m 1))
                  | None \<Rightarrow> info1);
         info3 =
           (if includes_any lowerMessage [''medicine'', ''medication'', ''pills'']
              then service info2 ''Medicine Delivery'' ''medical''
            else if includes_any lowerMessage [''doctor'', ''appointment'', ''medical'']
              then service info2 ''Medical Appointment'' ''medical''
            else if includes_any lowerMessage [''food'', ''meal'', ''cooking'', ''grocery'']
              then service info2 ''Grocery Shopping'' ''food''
            else if includes_any lowerMessage [''clean'', ''hygiene'', ''household'']
              then service info2 ''Household Help'' ''hygiene''
            else if includes_any lowerMessage [''companion'', ''company'', ''talk'']
              then service info2 ''Companionship'' ''companionship''
            else if includes_any lowerMessage [''emergency'', ''urgent'']
              then service info2 ''Emergency Assistance'' ''emergency''
            else info2)
     in if includes_any lowerMessage [''daily'', ''every day'']
          then info3(''frequency'' \<mapsto> JStr (asc ''daily''))
        else if includes_any lowerMessage [''weekly'', ''once a week'']
          then info3(''frequency'' \<mapsto> JStr (asc ''weekly''))
        else if includes_any lowerMessage [''monthly'']
          then info3(''frequency'' \<mapsto> JStr (asc ''monthly''))
        else if includes_any lowerMessage [''one time'', ''just once'']
          then info3(''frequency'' \<mapsto> JStr (asc ''one-time''))
        else info3)"

definition extract_complaint :: "jsstr \<Rightarrow> slots \<Rightarrow> slots" where
  "extract_complaint message info0 =
    (let lowerMessage = toLowerCase message;
         info1 = (case rx_match False complaintLocationPattern message of
                    Some m \<Rightarrow> info0(''complaintLocation'' \<mapsto> JStr (trim (grp_text m 1)))
                  | None \<Rightarrow> info0)
     in if includes_any lowerMessage [''road'', ''pothole'', ''pot hole'', ''street'', ''pavement'']
          then info1(''complaintCategory'' \<mapsto> JStr (asc ''Road Maintenance''))
        else if includes_any lowerMessage [''water'', ''drainage'', ''leak'']
          then info1(''complaintCategory'' \<mapsto> JStr (asc ''Water Supply''))
        else if includes_any lowerMessage [''garbage'', ''waste'', ''trash'', ''dump'']
          then info1(''complaintCategory'' \<mapsto> JStr (asc ''Waste Management''))
        else if includes_any lowerMessage [''electricity'', ''power'', ''light'', ''electric'']
          then info1(''complaintCategory'' \<mapsto> JStr (asc ''Electricity''))
        else if includes_any lowerMessage [''safety'', ''crime'', ''security'']
          then info1(''complaintCategory'' \<mapsto> JStr (asc ''Public Safety''))
        else info1)"

text \<open>
  \<open>extractRequestInfo\<close> starts from a copy of the conversation context and runs the
  block of the category; the three blocks are guarded by pairwise different categories.
\<close>

definition extractRequestInfo :: "nat \<Rightarrow> jsstr \<Rightarrow> string \<Rightarrow> slots \<Rightarrow> slots" where
  "extractRequestInfo now message category conversationContext =
    (let info = conversationContext;
         info = (if category = ''blood_request'' then extract_blood now message info else info);
         info = (if category = ''elder_support'' then extract_elder message info else info);
         info = (if category = ''complaint'' then extract_complaint message info else info)
     in info)"

section \<open>Collaborators: persistence, the clock and the AI service\<close>

text \<open>
  The user model, the request model and the AI service are outside the route. The route
  sees of them only what a call returns, so each is a parameter: \<open>users\<close> is
  \<open>User.findById\<close>, \<open>accepts\<close> says whether \<open>request.save()\<close> succeeds for a document,
  \<open>chat_ok\<close> and \<open>mark_ok\<close> whether \<open>chatMessage.save()\<close> and
  \<open>markAsRequestCreator\<close> do, and \<open>clock\<close> is the reading of \<open>new Date()\<close>.
\<close>

record user =
  user_name :: jsstr
  user_phone :: "jsstr option"
  user_email :: jsstr

record env =
  users :: "string \<rightharpoonup> user"
  accepts :: "slots \<Rightarrow> bool"
  chat_ok :: bool
  mark_ok :: bool
  clock :: nat

text \<open>
  The texts of replies are fixed templates or come from the AI service; a reply is
  represented by the template that produces it.
\<close>

datatype question =
    AskBloodType
  | AskUnitsNeeded jsval
  | AskHospitalName
  | AskRelationship
  | AskUrgencyLevel
  | AskServiceType
  | AskAge
  | AskFrequency
  | AskComplaintCategory
  | AskComplaintLocation
  | AskMoreDetails

datatype reply =
    AIText jsstr
  | Question question
  | SuccessMessage string nat
  | SaveErrorApology
  | CannedResponse string
  | GeneralResponse jsstr
  | HowCanIHelp

record chat =
  ch_user :: string
  ch_message :: jsstr
  ch_response :: reply
  ch_category :: string
  ch_priority :: string
  ch_usingFallback :: bool
  ch_pendingRequest :: bool
  ch_extractedInfo :: "slots option"
  ch_missingInfo :: "string list"
  ch_createdRequest :: "nat option"

text \<open>
  The stored state: the request documents (the \<open>_id\<close> of a document is its position)
  and the chat log.
\<close>

record world =
  requests :: "slots list"
  chats :: "chat list"

datatype error = UserNotFound | BloodTypeRequired | SaveFailed

text \<open>\<open>info.key || default\<close>\<close>

definition or_else :: "slots \<Rightarrow> string \<Rightarrow> jsval \<Rightarrow> jsval" where
  "or_else info k d = (case info k of None \<Rightarrow> d | Some v \<Rightarrow> if truthy v then v else d)"

definition phone_or_default :: "user \<Rightarrow> jsval" where
  "phone_or_default u =
     (case user_phone u of None \<Rightarrow> JStr (asc ''Not provided'')
      | Some p \<Rightarrow> if p = [] then JStr (asc ''Not provided'') else JStr p)"

section \<open>Request assembly\<close>

definition default_location :: jsval where
  "default_location = JObj
     [(''type'', JStr (asc ''manual'')),
      (''coordinates'', JObj [(''lat'', JDec 16523699 6), (''lng'', JDec 8061359225 8)]),
      (''address'', JStr (asc ''Potti Sriramulu College Road, Vinchipeta'')),
      (''city'', JStr (asc ''Vijayawada'')),
      (''state'', JStr (asc ''Andhra Pradesh'')),
      (''pincode'', JStr (asc ''520001'')),
      (''country'', JStr (asc ''India''))]"

definition mapPriority :: "string \<Rightarrow> string" where
  "mapPriority priority =
     (if priority = ''urgent'' then ''urgent'' else if priority = ''high'' then ''high'' else ''medium'')"

definition common_fields :: "string \<Rightarrow> user \<Rightarrow> string \<Rightarrow> string \<Rightarrow> slots" where
  "common_fields userId u requestType priority =
     [''type'' \<mapsto> JStr (asc requestType),
      ''user'' \<mapsto> JStr (asc userId),
      ''name'' \<mapsto> JStr (user_name u),
      ''phone'' \<mapsto> phone_or_default u,
      ''email'' \<mapsto> JStr (user_email u),
      ''location'' \<mapsto> default_location,
      ''priority'' \<mapsto> JStr (asc (mapPriority priority)),
      ''status'' \<mapsto> JStr (asc ''pending'')]"

definition blood_fields :: "nat \<Rightarrow> user \<Rightarrow> jsstr \<Rightarrow> string \<Rightarrow> slots \<Rightarrow> slots \<Rightarrow> slots" where
  "blood_fields now u message priority extractedInfo requestData =
    (let englishMessage = translateToEnglish message in
     requestData
      (''bloodType'' := extractedInfo ''bloodType'',
       ''urgencyLevel'' \<mapsto> or_else extractedInfo ''urgencyLevel''
          (if priority = ''urgent'' then JStr (asc ''urgent'') else JStr (asc ''high'')),
       ''unitsNeeded'' \<mapsto> or_else extractedInfo ''unitsNeeded'' (JNum 1),
       ''hospitalName'' \<mapsto> or_else extractedInfo ''hospitalName'' (JStr (asc ''To be confirmed'')),
       ''patientName'' \<mapsto> or_else extractedInfo ''patientName'' (JStr (user_name u)),
       ''relationship'' \<mapsto> or_else extractedInfo ''relationship'' (JStr (asc ''Self'')),
       ''medicalCondition'' \<mapsto> JStr englishMessage,
       ''contactNumber'' \<mapsto> phone_or_default u,
       ''requiredDate'' \<mapsto> or_else extractedInfo ''requiredDate'' (JDate now),
       ''additionalNotes'' \<mapsto> JStr englishMessage))"

definition elder_fields :: "nat \<Rightarrow> user \<Rightarrow> jsstr \<Rightarrow> slots \<Rightarrow> slots \<Rightarrow> slots" where
  "elder_fields now u message extractedInfo requestData =
    (let englishMessage = translateToEnglish message in
     requestData
      (''serviceType'' \<mapsto> or_else extractedInfo ''serviceType'' (JStr (asc ''Other'')),
       ''elderName'' \<mapsto> or_else extractedInfo ''elderName'' (JStr (user_name u)),
       ''age'' \<mapsto> or_else extractedInfo ''age'' (JStr (asc ''Not specified'')),
       ''supportType'' \<mapsto> or_else extractedInfo ''supportType'' (JArr [JStr (asc ''other'')]),
       ''frequency'' \<mapsto> or_else extractedInfo ''frequency'' (JStr (asc ''one-time'')),
       ''timeSlot'' \<mapsto> JStr (asc ''flexible''),
       ''specialRequirements'' \<mapsto> JStr englishMessage,
       ''dueDate'' \<mapsto> JDate (now + 86400000)))"

definition complaint_fields :: "string \<Rightarrow> slots \<Rightarrow> slots \<Rightarrow> slots" where
  "complaint_fields priority extractedInfo requestData =
     requestData
      (''category'' \<mapsto> or_else extractedInfo ''complaintCategory'' (JStr (asc ''Other'')),
       ''severity'' \<mapsto> (if priority = ''urgent'' then JStr (asc ''high'') else JStr (asc ''medium'')))"

text \<open>
  \<open>createRequestFromChatWithInfo\<close>. The file declares a function of this name twice; a
  later function declaration replaces an earlier one of the same scope, so every call
  runs the second declaration, which is the one modelled here. The display strings
  \<open>title\<close> and \<open>description\<close> of the document are left out: they are computed from the
  message and the slots by \<open>buildTitleAndDescription\<close>, which cannot fail and touches no
  other field. The result is the error thrown, or the identifier and the document saved.
\<close>

definition createRequestFromChatWithInfo ::
  "env \<Rightarrow> world \<Rightarrow> string \<Rightarrow> jsstr \<Rightarrow> string \<Rightarrow> string \<Rightarrow> slots \<Rightarrow> (error + nat \<times> slots) \<times> world" where
  "createRequestFromChatWithInfo e w userId message category priority extractedInfo =
    (case users e userId of
       None \<Rightarrow> (Inl UserNotFound, w)
     | Some u \<Rightarrow>
         if category = ''blood_request'' \<and> lacks extractedInfo ''bloodType''
         then (Inl BloodTypeRequired, w)
         else
           (let requestType = (if category = ''blood_request'' then ''blood'' else category);
                requestData = common_fields userId u requestType priority;
                requestData =
                  (if requestType = ''blood''
                     then blood_fields (clock e) u message priority extractedInfo requestData
                   else if requestType = ''elder_support''
                     then elder_fields (clock e) u message extractedInfo requestData
                   else if requestType = ''complaint''
                     then complaint_fields priority extractedInfo requestData
                   else requestData);
                requestData = requestData(''source'' \<mapsto> JStr (asc ''text_chat''))
            in if accepts e requestData
               then (Inr (length (requests w), requestData),
                     w\<lparr>requests := requests w @ [requestData]\<rparr>)
               else (Inl SaveFailed, w)))"

text \<open>
  The urgency computation of the first, replaced declaration (its lines "Regex > Gemini >
  Default (High)"): the urgency found in the message, else the lower-cased urgency of
  the slots, else \<open>high\<close>. \<open>toLowerCase\<close> exists on strings only; on another truthy value
  the call throws, which is \<open>None\<close> here.
\<close>

definition replaced_declaration_urgency :: "jsstr \<Rightarrow> slots \<Rightarrow> jsstr option" where
  "replaced_declaration_urgency message extractedInfo =
    (let regexUrgency = extractUrgency message in
     case extractedInfo ''urgencyLevel'' of
       None \<Rightarrow> Some (case regexUrgency of Some u \<Rightarrow> asc u | None \<Rightarrow> asc ''high'')
     | Some v \<Rightarrow>
         if \<not> truthy v then Some (case regexUrgency of Some u \<Rightarrow> asc u | None \<Rightarrow> asc ''high'')
         else (case v of
                 JStr s \<Rightarrow>
                   Some (case regexUrgency of Some u \<Rightarrow> asc u
                         | None \<Rightarrow> if toLowerCase s \<noteq> [] then toLowerCase s else asc ''high'')
               | _ \<Rightarrow> None))"

section \<open>The text endpoint\<close>

definition shouldCreateRequest :: "string \<Rightarrow> bool" where
  "shouldCreateRequest category = (category \<in> set [''blood_request'', ''elder_support'', ''complaint''])"

text \<open>
  \<open>generateFollowUpQuestion\<close>: the table of questions by category and field, with the
  general question for every other pair.
\<close>

definition generateFollowUpQuestion :: "string \<Rightarrow> string \<Rightarrow> slots \<Rightarrow> question" where
  "generateFollowUpQuestion category missingField extractedInfo =
    (if category = ''blood_request'' then
       (if missingField = ''bloodType'' then AskBloodType
        else if missingField = ''unitsNeeded''
          then AskUnitsNeeded (or_else extractedInfo ''bloodType'' (JStr (asc ''blood'')))
        else if missingField = ''hospitalName'' then AskHospitalName
        else if missingField = ''relationship'' then AskRelationship
        else if missingField = ''urgencyLevel'' then AskUrgencyLevel
        else AskMoreDetails)
     else if category = ''elder_support'' then
       (if missingField = ''serviceType'' then AskServiceType
        else if missingField = ''age'' then AskAge
        else if missingField = ''frequency'' then AskFrequency
        else AskMoreDetails)
     else if category = ''complaint'' then
       (if missingField = ''complaintCategory'' then AskComplaintCategory
        else if missingField = ''complaintLocation'' then AskComplaintLocation
        else AskMoreDetails)
     else AskMoreDetails)"

text \<open>
  \<open>generateFallbackResponse\<close>: a canned text for the four service categories,
  the conversational responder \<open>generateGeneralResponse\<close> for every other category.
\<close>

definition generateFallbackResponse :: "string \<Rightarrow> jsstr \<Rightarrow> reply" where
  "generateFallbackResponse category message =
     (if category \<in> set [''blood_request'', ''elder_support'', ''complaint'', ''emergency'']
      then CannedResponse category else GeneralResponse message)"

text \<open>
  What the AI service answers in one turn. \<open>ai_classify\<close> is the first
  \<open>processTextWithGemini\<close> call, \<open>ai_extract\<close> is \<open>extractInformationWithGemini\<close>,
  \<open>ai_followUp\<close> is its \<open>generateFollowUpQuestion\<close>, \<open>ai_confirm\<close> the second
  \<open>processTextWithGemini\<close> call; \<open>None\<close> is a call that throws. A field that is
  absent or falsy in an answer is \<open>None\<close>, or \<open>False\<close> for a flag.
\<close>

record classification =
  g_category :: "string option"
  g_priority :: "string option"
  g_response :: "reply option"
  g_usingFallback :: bool

record extraction =
  e_success :: bool
  e_usingFallback :: bool
  e_extractedInfo :: slots
  e_missingRequired :: "string list option"
  e_needsMoreInfo :: bool

record follow_up =
  q_success :: bool
  q_usingFallback :: bool
  q_question :: jsstr

record ai =
  ai_classify :: "classification option"
  ai_extract :: "extraction option"
  ai_followUp :: "follow_up option"
  ai_confirm :: "jsstr option option"

record payload =
  p_category :: string
  p_priority :: string
  p_extractedInfo :: slots
  p_missingInfo :: "string list"
  p_needsMoreInfo :: bool
  p_response :: reply
  p_createdRequestId :: "nat option"
  p_usingFallback :: bool
  p_geminiExtraction :: bool

datatype response = BadRequest | ServerError | Ok payload

record text_request =
  message :: "jsstr option"
  conversationContext :: slots

text \<open>The classification the route works with: the AI's, or the heuristic one when the call throws.\<close>

definition classification_of :: "ai \<Rightarrow> jsstr \<Rightarrow> classification" where
  "classification_of a trimmedMessage =
    (case ai_classify a of
       Some g \<Rightarrow> g
     | None \<Rightarrow>
         (let category = categorizeRequest trimmedMessage;
              priority = determinePriority trimmedMessage
          in \<lparr>g_category = Some category, g_priority = Some priority,
              g_response = Some (generateFallbackResponse category trimmedMessage),
              g_usingFallback = True\<rparr>))"

definition finalCategory_of :: "classification \<Rightarrow> jsstr \<Rightarrow> string" where
  "finalCategory_of g trimmedMessage =
    (let heuristicCategory = categorizeRequest trimmedMessage in
     case g_category g of
       Some c \<Rightarrow> if c \<noteq> [] \<and> c \<noteq> ''general_inquiry'' then c else heuristicCategory
     | None \<Rightarrow> heuristicCategory)"

definition finalPriority_of :: "classification \<Rightarrow> jsstr \<Rightarrow> string" where
  "finalPriority_of g trimmedMessage =
    (case g_priority g of
       Some p \<Rightarrow> if p \<noteq> [] then p else determinePriority trimmedMessage
     | None \<Rightarrow> determinePriority trimmedMessage)"

text \<open>The extraction step: the slots, the missing fields and the flag \<open>needsMoreInfo\<close>.\<close>

definition extraction_step ::
  "env \<Rightarrow> extraction \<Rightarrow> jsstr \<Rightarrow> string \<Rightarrow> slots \<Rightarrow> slots \<times> string list \<times> bool" where
  "extraction_step e ge trimmedMessage finalCategory context =
    (if e_success ge \<and> \<not> e_usingFallback ge
     then (context ++ e_extractedInfo ge,
           (case e_missingRequired ge of Some l \<Rightarrow> l | None \<Rightarrow> []),
           e_needsMoreInfo ge)
     else
       (let info = extractRequestInfo (clock e) trimmedMessage finalCategory context;
            info = (if lacks info ''urgencyLevel''
                    then info(''urgencyLevel'' \<mapsto>
                           (case extractUrgency trimmedMessage of
                              Some u \<Rightarrow> JStr (asc u) | None \<Rightarrow> JNull))
                    else info);
            missingInfo = getMissingRequiredInfo finalCategory info
        in (info, missingInfo, missingInfo \<noteq> [])))"

definition mk_payload ::
  "classification \<Rightarrow> string \<Rightarrow> string \<Rightarrow> slots \<Rightarrow> string list \<Rightarrow> bool \<Rightarrow> reply \<Rightarrow> nat option
     \<Rightarrow> bool \<Rightarrow> payload" where
  "mk_payload g finalCategory finalPriority extractedInfo missingInfo needsMoreInfo
      responseMessage createdRequestId geminiExtraction =
     \<lparr>p_category = finalCategory, p_priority = finalPriority, p_extractedInfo = extractedInfo,
      p_missingInfo = missingInfo, p_needsMoreInfo = needsMoreInfo,
      p_response = responseMessage, p_createdRequestId = createdRequestId,
      p_usingFallback = g_usingFallback g, p_geminiExtraction = geminiExtraction\<rparr>"

definition mk_chat ::
  "string \<Rightarrow> jsstr \<Rightarrow> reply \<Rightarrow> string \<Rightarrow> string \<Rightarrow> classification \<Rightarrow> bool \<Rightarrow> slots option
     \<Rightarrow> string list \<Rightarrow> chat" where
  "mk_chat userId trimmedMessage responseMessage finalCategory finalPriority g pending info missing =
     \<lparr>ch_user = userId, ch_message = trimmedMessage, ch_response = responseMessage,
      ch_category = finalCategory, ch_priority = finalPriority,
      ch_usingFallback = g_usingFallback g, ch_pendingRequest = pending,
      ch_extractedInfo = info, ch_missingInfo = missing, ch_createdRequest = None\<rparr>"

text \<open>The branch that asks for the first missing field and saves the chat as pending.\<close>

definition follow_up_branch ::
  "env \<Rightarrow> ai \<Rightarrow> world \<Rightarrow> string \<Rightarrow> jsstr \<Rightarrow> classification \<Rightarrow> string \<Rightarrow> string \<Rightarrow> slots
     \<Rightarrow> string list \<Rightarrow> bool \<Rightarrow> bool \<Rightarrow> response \<times> world" where
  "follow_up_branch e a w userId trimmedMessage g finalCategory finalPriority extractedInfo
      missingInfo needsMoreInfo geminiExtraction =
    (case ai_followUp a of
       None \<Rightarrow> (ServerError, w)
     | Some q \<Rightarrow>
         (let responseMessage =
                (if q_success q \<and> \<not> q_usingFallback q then AIText (q_question q)
                 else Question (generateFollowUpQuestion finalCategory (hd missingInfo) extractedInfo))
          in if chat_ok e
             then (Ok (mk_payload g finalCategory finalPriority extractedInfo missingInfo
                         needsMoreInfo responseMessage None geminiExtraction),
                   w\<lparr>chats := chats w @
                      [mk_chat userId trimmedMessage responseMessage finalCategory finalPriority g
                         True (Some extractedInfo) missingInfo]\<rparr>)
             else (ServerError, w)))"

text \<open>
  The branch that creates the request. Everything in it runs inside one \<open>try\<close>: an
  error of the creation, of saving the chat or of marking it replaces the reply by the
  apology and the turn still answers; the request identifier, once assigned, stays.
\<close>

definition finalize_branch ::
  "env \<Rightarrow> ai \<Rightarrow> world \<Rightarrow> string \<Rightarrow> jsstr \<Rightarrow> classification \<Rightarrow> string \<Rightarrow> string \<Rightarrow> slots
     \<Rightarrow> string list \<Rightarrow> bool \<Rightarrow> bool \<Rightarrow> response \<times> world" where
  "finalize_branch e a w userId trimmedMessage g finalCategory finalPriority extractedInfo
      missingInfo needsMoreInfo geminiExtraction =
    (case createRequestFromChatWithInfo e w userId trimmedMessage finalCategory finalPriority
            extractedInfo of
       (Inl err, w1) \<Rightarrow>
         (Ok (mk_payload g finalCategory finalPriority extractedInfo missingInfo needsMoreInfo
                SaveErrorApology None geminiExtraction), w1)
     | (Inr (rid, doc), w1) \<Rightarrow>
         (let responseMessage =
                (case ai_confirm a of
                   Some (Some t) \<Rightarrow> if t \<noteq> [] then AIText t else SuccessMessage finalCategory rid
                 | _ \<Rightarrow> SuccessMessage finalCategory rid);
              saved = mk_chat userId trimmedMessage responseMessage finalCategory finalPriority g
                        False None []
          in if \<not> chat_ok e
             then (Ok (mk_payload g finalCategory finalPriority extractedInfo missingInfo
                         needsMoreInfo SaveErrorApology (Some rid) geminiExtraction), w1)
             else if \<not> mark_ok e
             then (Ok (mk_payload g finalCategory finalPriority extractedInfo missingInfo
                         needsMoreInfo SaveErrorApology (Some rid) geminiExtraction),
                   w1\<lparr>chats := chats w1 @ [saved]\<rparr>)
             else (Ok (mk_payload g finalCategory finalPriority extractedInfo missingInfo
                         needsMoreInfo responseMessage (Some rid) geminiExtraction),
                   w1\<lparr>chats := chats w1 @ [saved\<lparr>ch_createdRequest := Some rid\<rparr>]\<rparr>)))"

definition general_branch ::
  "env \<Rightarrow> world \<Rightarrow> string \<Rightarrow> jsstr \<Rightarrow> classification \<Rightarrow> string \<Rightarrow> string \<Rightarrow> response \<times> world" where
  "general_branch e w userId trimmedMessage g finalCategory finalPriority =
    (let responseMessage = (case g_response g of Some r \<Rightarrow> r | None \<Rightarrow> HowCanIHelp)
     in if chat_ok e
        then (Ok (mk_payload g finalCategory finalPriority Map.empty [] False responseMessage None
                    False),
              w\<lparr>chats := chats w @
                 [mk_chat userId trimmedMessage responseMessage finalCategory finalPriority g
                    False None []]\<rparr>)
        else (ServerError, w))"

text \<open>
  The handler of \<open>POST /text\<close> for the authenticated user \<open>userId\<close>: the response and
  the state after the turn.
\<close>

definition text_handler :: "env \<Rightarrow> ai \<Rightarrow> world \<Rightarrow> string \<Rightarrow> text_request \<Rightarrow> response \<times> world" where
  "text_handler e a w userId req =
    (case message req of
       None \<Rightarrow> (BadRequest, w)
     | Some m \<Rightarrow>
         if m = [] \<or> trim m = [] then (BadRequest, w)
         else
           (let trimmedMessage = trim m;
                g = classification_of a trimmedMessage;
                finalCategory = finalCategory_of g trimmedMessage;
                finalPriority = finalPriority_of g trimmedMessage
            in if shouldCreateRequest finalCategory
               then (case ai_extract a of
                       None \<Rightarrow> (ServerError, w)
                     | Some ge \<Rightarrow>
                         (case extraction_step e ge trimmedMessage finalCategory
                                 (conversationContext req) of
                            (extractedInfo, missingInfo, needsMoreInfo) \<Rightarrow>
                              if needsMoreInfo \<and> missingInfo \<noteq> []
                              then follow_up_branch e a w userId trimmedMessage g finalCategory
                                     finalPriority extractedInfo missingInfo needsMoreInfo
                                     (e_success ge)
                              else finalize_branch e a w userId trimmedMessage g finalCategory
                                     finalPriority extractedInfo missingInfo needsMoreInfo
                                     (e_success ge)))
               else general_branch e w userId trimmedMessage g finalCategory finalPriority))"

section \<open>Sample collaborators\<close>

text \<open>
  A registered user, a store that accepts every document, and two behaviours of the AI
  service: \<open>ai_down\<close> fails at every call, so the turn runs on the heuristics alone;
  \<open>ai_inconsistent\<close> classifies and extracts, and reports \<open>needsMoreInfo\<close> with an empty
  list of missing fields.
\<close>

definition demo_user :: user where
  "demo_user = \<lparr>user_name = asc ''Asha'', user_phone = None, user_email = asc ''asha@example.org''\<rparr>"

definition demo_env :: env where
  "demo_env = \<lparr>users = [''u1'' \<mapsto> demo_user], accepts = (\<lambda>_. True), chat_ok = True,
                mark_ok = True, clock = 0\<rparr>"

definition empty_world :: world where
  "empty_world = \<lparr>requests = [], chats = []\<rparr>"

definition ai_down :: ai where
  "ai_down = \<lparr>ai_classify = None,
      ai_extract = Some \<lparr>e_success = False, e_usingFallback = True, e_extractedInfo = Map.empty,
                          e_missingRequired = None, e_needsMoreInfo = False\<rparr>,
      ai_followUp = Some \<lparr>q_success = False, q_usingFallback = True, q_question = []\<rparr>,
      ai_confirm = None\<rparr>"

definition ai_inconsistent :: ai where
  "ai_inconsistent = \<lparr>ai_classify = Some \<lparr>g_category = Some ''blood_request'',
        g_priority = Some ''high'', g_response = None, g_usingFallback = False\<rparr>,
      ai_extract = Some \<lparr>e_success = True, e_usingFallback = False,
        e_extractedInfo = [''bloodType'' \<mapsto> JStr (asc ''O+'')],
        e_missingRequired = Some [], e_needsMoreInfo = True\<rparr>,
      ai_followUp = None, ai_confirm = None\<rparr>"

section \<open>Facts about the matcher\<close>

lemma starts_with_iff: "starts_with s w \<longleftrightarrow> prefix w s"
  by (induction s w rule: starts_with.induct) auto

lemma includes_iff: "js_includes s w \<longleftrightarrow> sublist w s"
proof (induction s)
  case Nil
  then show ?case by auto
next
  case (Cons x s)
  show ?case
    by (simp add: Cons.IH starts_with_iff sublist_Cons_right)
qed

lemma strip_lit_sound:
  "strip_lit ic w p s = Some (p', s') \<Longrightarrow> \<exists>x. s = x @ s' \<and> list_all2 (ceq ic) w x"
proof (induction ic w p s rule: strip_lit.induct)
  case (1 ic p s)
  then show ?case by simp
next
  case (2 ic a w p)
  then show ?case by simp
next
  case (3 ic a w p x s)
  then have c: "ceq ic a x" and r: "strip_lit ic w (Some x) s = Some (p', s')"
    by (auto split: if_splits)
  from "3.IH" [OF c r] obtain y where "s = y @ s'" "list_all2 (ceq ic) w y" by blast
  then have "x # s = (x # y) @ s' \<and> list_all2 (ceq ic) (a # w) (x # y)"
    using c by simp
  then show ?case by blast
qed

lemma strip_lit_complete:
  "list_all2 (ceq ic) w x \<Longrightarrow> \<exists>p'. strip_lit ic w p (x @ s') = Some (p', s')"
proof (induction w arbitrary: x p)
  case Nil
  then show ?case by simp
next
  case (Cons a w)
  then obtain y ys where x: "x = y # ys" and c: "ceq ic a y" and r: "list_all2 (ceq ic) w ys"
    by (auto simp: list_all2_Cons1)
  from Cons.IH [OF r] show ?case using x c by simp
qed

lemma strip_lit_iff: "strip_lit ic w p s \<noteq> None \<longleftrightarrow> lit_at ic w s"
proof
  assume "strip_lit ic w p s \<noteq> None"
  then obtain p' s' where "strip_lit ic w p s = Some (p', s')" by auto
  from strip_lit_sound [OF this] show "lit_at ic w s" by (auto simp: lit_at_def)
next
  assume "lit_at ic w s"
  then obtain x r where "s = x @ r" "list_all2 (ceq ic) w x" by (auto simp: lit_at_def)
  with strip_lit_complete [of ic w x p r] show "strip_lit ic w p s \<noteq> None" by auto
qed

lemma rxm_Lit_iff: "rxm ic (Lit w) (p, s, c) \<noteq> [] \<longleftrightarrow> lit_at ic w s"
  using strip_lit_iff [of ic w p s] by (auto split: option.splits)

lemma rxm_alt_list: "rxm ic (alt_list rs) st \<noteq> [] \<longleftrightarrow> (\<exists>r \<in> set rs. rxm ic r st \<noteq> [])"
proof (induction rs rule: alt_list.induct)
  case 1
  show ?case by (cases st) (auto simp: in_folded_def split: list.splits)
next
  case (2 r)
  show ?case by simp
next
  case (3 r v va)
  then show ?case by auto
qed

text \<open>The search succeeds exactly when a match attempt succeeds at some suffix.\<close>

lemma rx_exec_iff:
  "rx_exec ic r p s \<noteq> None \<longleftrightarrow>
     (\<exists>pre post. s = pre @ post \<and> rxm ic r (prev_of p pre, post, []) \<noteq> [])"
proof (induction s arbitrary: p)
  case Nil
  show ?case by (auto simp: prev_of_def split: list.splits)
next
  case (Cons x xs)
  show ?case
  proof (cases "rxm ic r (p, x # xs, [])")
    case Nil
    have "rx_exec ic r p (x # xs) \<noteq> None \<longleftrightarrow> rx_exec ic r (Some x) xs \<noteq> None"
      using Nil by simp
    also have "\<dots> \<longleftrightarrow> (\<exists>pre post. xs = pre @ post \<and> rxm ic r (prev_of (Some x) pre, post, []) \<noteq> [])"
      by (rule Cons.IH)
    also have "\<dots> \<longleftrightarrow> (\<exists>pre post. x # xs = pre @ post \<and> rxm ic r (prev_of p pre, post, []) \<noteq> [])"
    proof
      assume "\<exists>pre post. xs = pre @ post \<and> rxm ic r (prev_of (Some x) pre, post, []) \<noteq> []"
      then obtain pre post where a: "xs = pre @ post"
        and b: "rxm ic r (prev_of (Some x) pre, post, []) \<noteq> []" by blast
      have "prev_of p (x # pre) = prev_of (Some x) pre" by (simp add: prev_of_def)
      with a b have "x # xs = (x # pre) @ post \<and> rxm ic r (prev_of p (x # pre), post, []) \<noteq> []"
        by simp
      then show "\<exists>pre post. x # xs = pre @ post \<and> rxm ic r (prev_of p pre, post, []) \<noteq> []"
        by blast
    next
      assume "\<exists>pre post. x # xs = pre @ post \<and> rxm ic r (prev_of p pre, post, []) \<noteq> []"
      then obtain pre post where a: "x # xs = pre @ post"
        and b: "rxm ic r (prev_of p pre, post, []) \<noteq> []" by blast
      have "pre \<noteq> []"
      proof
        assume "pre = []"
        with a b Nil show False by (simp add: prev_of_def)
      qed
      then obtain pre' where p: "pre = x # pre'" using a by (cases pre) auto
      have "prev_of p (x # pre') = prev_of (Some x) pre'" by (simp add: prev_of_def)
      with a b p have "xs = pre' @ post \<and> rxm ic r (prev_of (Some x) pre', post, []) \<noteq> []"
        by simp
      then show "\<exists>pre post. xs = pre @ post \<and> rxm ic r (prev_of (Some x) pre, post, []) \<noteq> []"
        by blast
    qed
    finally show ?thesis .
  next
    case (Cons st sts)
    then have "rx_exec ic r p (x # xs) \<noteq> None" by (auto split: prod.splits)
    moreover have "x # xs = [] @ (x # xs) \<and> rxm ic r (prev_of p [], x # xs, []) \<noteq> []"
      using Cons by (simp add: prev_of_def)
    ultimately show ?thesis by blast
  qed
qed

lemma rx_test_alt_list: "rx_test ic (alt_list rs) s \<longleftrightarrow> (\<exists>r \<in> set rs. rx_test ic r s)"
  unfolding rx_test_def rx_match_def rx_exec_iff rxm_alt_list by blast

lemma rx_test_Lit: "rx_test ic (Lit w) s \<longleftrightarrow> lit_in ic w s"
  unfolding rx_test_def rx_match_def rx_exec_iff rxm_Lit_iff lit_at_def lit_in_def by blast

lemma rx_test_alts: "rx_test ic (alts ws) s \<longleftrightarrow> (\<exists>w \<in> set ws. lit_in ic w s)"
  by (simp add: alts_def rx_test_alt_list rx_test_Lit)

lemma lit_in_exact: "lit_in False w s \<longleftrightarrow> sublist w s"
proof -
  have "ceq False = (=)"
    by (simp add: ceq_def fun_eq_iff)
  then have "list_all2 (ceq False) w x \<longleftrightarrow> w = x" for x
    by (simp add: list_all2_eq [symmetric])
  then show ?thesis by (auto simp: lit_in_def sublist_def)
qed

lemma rx_test_alts_exact: "rx_test False (alts ws) s \<longleftrightarrow> mentions ws s"
  by (simp add: rx_test_alts lit_in_exact mentions_def)

section \<open>Keyword tests as substring tests\<close>
lemma canon_inj_lower: "\<not> is_upper a \<Longrightarrow> \<not> is_upper b \<Longrightarrow> canon a = canon b \<Longrightarrow> a = b"
  by (auto simp: canon_def is_upper_def is_lower_def split: if_splits)

lemma ci_no_upper_eq:
  "list_all2 (ceq True) w x \<Longrightarrow> \<forall>c \<in> set w. \<not> is_upper c \<Longrightarrow> \<forall>c \<in> set x. \<not> is_upper c \<Longrightarrow> w = x"
proof (induction w x rule: list_all2_induct)
  case Nil
  show ?case by simp
next
  case (Cons a w b x)
  then have "a = b" by (auto simp: ceq_def intro: canon_inj_lower)
  with Cons show ?case by simp
qed

lemma ceq_refl: "ceq ic a a"
  by (simp add: ceq_def)

lemma lit_in_no_upper:
  assumes "\<forall>c \<in> set w. \<not> is_upper c" "\<forall>c \<in> set s. \<not> is_upper c"
  shows "lit_in True w s \<longleftrightarrow> sublist w s"
proof
  assume "lit_in True w s"
  then obtain pre x post where s: "s = pre @ x @ post" and m: "list_all2 (ceq True) w x"
    by (auto simp: lit_in_def)
  from s assms(2) have "\<forall>c \<in> set x. \<not> is_upper c" by auto
  with m assms(1) have "w = x" by (rule ci_no_upper_eq)
  with s show "sublist w s" by (auto simp: sublist_def)
next
  assume "sublist w s"
  then obtain pre post where "s = pre @ w @ post" by (auto simp: sublist_def)
  moreover have "list_all2 (ceq True) w w" by (simp add: list_all2_same ceq_refl)
  ultimately show "lit_in True w s" unfolding lit_in_def by blast
qed

lemma toLowerCase_no_upper: "\<forall>c \<in> set (toLowerCase s). \<not> is_upper c"
  by (auto simp: toLowerCase_def lower_units_def is_upper_def split: if_splits)

lemma rx_test_alts_lower:
  "no_upper ws \<Longrightarrow> rx_test True (alts ws) (toLowerCase s) \<longleftrightarrow> mentions ws (toLowerCase s)"
  unfolding rx_test_alts mentions_def
  using lit_in_no_upper [OF _ toLowerCase_no_upper]
  by (auto simp: no_upper_def list_all_iff)

lemma toLowerCase_sublist: "sublist w s \<Longrightarrow> sublist (toLowerCase w) (toLowerCase s)"
proof -
  assume "sublist w s"
  then obtain ps ss where "s = ps @ w @ ss" by (auto simp: sublist_def)
  then have "toLowerCase s = toLowerCase ps @ toLowerCase w @ toLowerCase ss"
    by (simp add: toLowerCase_def)
  then show ?thesis by (simp only: sublist_appendI)
qed

lemma tiers_no_upper: "no_upper urgent_tier" "no_upper low_tier" "no_upper high_tier" "no_upper medium_tier"
  by code_simp+

lemma extractUrgency_mentions:
  "extractUrgency text =
     (let t = toLowerCase text in
      if mentions urgent_tier t then Some ''urgent''
      else if mentions low_tier t then Some ''low''
      else if mentions high_tier t then Some ''high''
      else if mentions medium_tier t then Some ''medium''
      else None)"
  by (simp add: extractUrgency_def rx_test_alts_lower tiers_no_upper Let_def cong: if_cong)

lemma star_states_suffix: "(p', s') \<in> set (star_states ic cs p s) \<Longrightarrow> suffix s' s"
  by (induction ic cs p s rule: star_states.induct) (auto simp: suffix_Cons split: if_splits)

lemma rxm_suffix: "(p', s', c') \<in> set (rxm ic r (p, s, c)) \<Longrightarrow> suffix s' s"
proof (induction r arbitrary: p s c p' s' c')
  case (Lit w)
  then have "strip_lit ic w p s = Some (p', s')" by (auto split: option.splits)
  from strip_lit_sound [OF this] show ?case by (auto simp: suffix_def)
next
  case (Cls cs)
  then show ?case by (auto split: list.splits if_splits simp: suffix_Cons)
next
  case (Star cs)
  then show ?case by (auto dest: star_states_suffix)
next
  case (Seq a b)
  from Seq.prems obtain p1 s1 c1 where 1: "(p1, s1, c1) \<in> set (rxm ic a (p, s, c))"
    and 2: "(p', s', c') \<in> set (rxm ic b (p1, s1, c1))" by auto
  from Seq.IH(1) [OF 1] Seq.IH(2) [OF 2] show ?case by (rule suffix_order.trans [rotated])
next
  case (Alt a b)
  then show ?case by auto
next
  case Eps
  then show ?case by simp
next
  case WordB
  then show ?case by (auto split: if_splits)
next
  case (Grp n r)
  then show ?case by auto
next
  case Bol
  then show ?case by (auto split: if_splits)
next
  case Eol
  then show ?case by (auto split: if_splits)
qed

lemma lit_at_exact: "lit_at False w s \<longleftrightarrow> prefix w s"
proof -
  have "ceq False = (=)"
    by (simp add: ceq_def fun_eq_iff)
  then have "list_all2 (ceq False) w x \<longleftrightarrow> w = x" for x
    by (simp add: list_all2_eq [symmetric])
  then show ?thesis by (auto simp: lit_at_def prefix_def)
qed

lemma rxm_Seq_nonempty:
  "rxm ic (Seq a b) st \<noteq> [] \<longleftrightarrow> (\<exists>st1 \<in> set (rxm ic a st). rxm ic b st1 \<noteq> [])"
  by auto

lemma help_urgent_sublist:
  assumes "rx_test False (seqs [Lit h, Star cs, Lit u]) t"
  shows "sublist u t"
proof -
  have "seqs [Lit h, Star cs, Lit u] = Seq (Lit h) (Seq (Star cs) (Lit u))"
    by simp
  with assms obtain pre post q where t: "t = pre @ post"
    and m: "rxm False (Seq (Lit h) (Seq (Star cs) (Lit u))) (q, post, []) \<noteq> []"
    unfolding rx_test_def rx_match_def rx_exec_iff by metis
  from m obtain st1 where 1: "st1 \<in> set (rxm False (Lit h) (q, post, []))"
    and m1: "rxm False (Seq (Star cs) (Lit u)) st1 \<noteq> []"
    unfolding rxm_Seq_nonempty [of False "Lit h"] by blast
  from m1 obtain st2 where 2: "st2 \<in> set (rxm False (Star cs) st1)"
    and 3: "rxm False (Lit u) st2 \<noteq> []"
    unfolding rxm_Seq_nonempty [of False "Star cs"] by blast
  obtain p1 s1 c1 where st1: "st1 = (p1, s1, c1)" by (cases st1)
  obtain p2 s2 c2 where st2: "st2 = (p2, s2, c2)" by (cases st2)
  have a: "suffix s1 post" using 1 unfolding st1 by (rule rxm_suffix)
  have b: "suffix s2 s1" using 2 unfolding st1 st2 by (rule rxm_suffix)
  from 3 have "prefix u s2" unfolding st2 rxm_Lit_iff lit_at_exact .
  then obtain r where "s2 = u @ r" by (auto simp: prefix_def)
  moreover from a b t obtain l where "t = l @ s2" by (auto simp: suffix_def)
  ultimately have "t = l @ u @ r" by simp
  then show ?thesis unfolding sublist_def by blast
qed

lemma emergency_rx_mentions: "rx_test False emergency_rx t \<longleftrightarrow> mentions emergency_words t"
proof -
  let ?hu = "seqs [Lit (asc ''help''), Star dot_class, Lit (asc ''urgent'')]"
  obtain as bs where a: "emergency_rx = alt_list (map Lit as @ [?hu] @ map Lit bs)"
    and b: "emergency_words = as @ bs"
    unfolding emergency_rx_def emergency_words_def by (metis map_append)
  have u: "asc ''urgent'' \<in> set emergency_words" by (simp add: emergency_words_def)
  have hu: "mentions emergency_words t" if "rx_test False ?hu t"
    using help_urgent_sublist [OF that] u unfolding mentions_def by blast
  have l: "(\<exists>r \<in> set (map Lit ws). rx_test False r t) \<longleftrightarrow> mentions ws t" for ws
    by (simp add: mentions_def rx_test_Lit lit_in_exact)
  have m: "mentions (as @ bs) t \<longleftrightarrow> mentions as t \<or> mentions bs t"
    by (auto simp: mentions_def)
  have "rx_test False emergency_rx t \<longleftrightarrow>
          (\<exists>r \<in> set (map Lit as). rx_test False r t) \<or> rx_test False ?hu t
        \<or> (\<exists>r \<in> set (map Lit bs). rx_test False r t)"
    unfolding a rx_test_alt_list set_append bex_Un by (simp del: seqs.simps set_map)
  then have "rx_test False emergency_rx t \<longleftrightarrow> mentions emergency_words t \<or> rx_test False ?hu t"
    unfolding l b m by blast
  with hu show ?thesis by blast
qed

lemma categorizeRequest_mentions:
  "categorizeRequest text =
    (let t = toLowerCase text in
     if mentions blood_words t then ''blood_request''
     else if mentions emergency_words t then ''emergency''
     else if mentions elder_words t then ''elder_support''
     else if mentions complaint_words t then ''complaint''
     else ''general_inquiry'')"
  by (simp add: categorizeRequest_def rx_test_alts_exact emergency_rx_mentions Let_def cong: if_cong)

section \<open>The keyword classifiers\<close>

text \<open>
  Claim C10. \<open>extractUrgency\<close> tests the tiers urgent, low, high, medium in this order
  on the lower-cased text, each as a substring test, and returns \<open>null\<close> when no tier
  matches. A message that contains the substring "urgent" is therefore rated
  \<open>urgent\<close>, also when it reads "not urgent", a phrase of the low tier.
\<close>

theorem C10_extractUrgency_tier_order: "(extractUrgency text =
     (let t = toLowerCase text in
      if mentions urgent_tier t then Some ''urgent''
      else if mentions low_tier t then Some ''low''
      else if mentions high_tier t then Some ''high''
      else if mentions medium_tier t then Some ''medium''
      else None)) \<and>
    (sublist (asc ''urgent'') text \<longrightarrow> extractUrgency text = Some ''urgent'')"
proof -
  have "mentions urgent_tier (toLowerCase text)" if "sublist (asc ''urgent'') text"
  proof -
    have "toLowerCase (asc ''urgent'') = asc ''urgent''" by code_simp
    with toLowerCase_sublist [OF that] have "sublist (asc ''urgent'') (toLowerCase text)" by simp
    moreover have "asc ''urgent'' \<in> set urgent_tier" by (simp add: urgent_tier_def)
    ultimately show ?thesis unfolding mentions_def by blast
  qed
  then show ?thesis by (simp add: extractUrgency_mentions)
qed

theorem C10_extractUrgency_witness: "sublist (asc ''urgent'') (asc ''it is not urgent'')
   \<and> mentions low_tier (toLowerCase (asc ''it is not urgent''))
   \<and> extractUrgency (asc ''it is not urgent'') = Some ''urgent''"
proof -
  have a: "sublist (asc ''urgent'') (asc ''it is not urgent'')" by code_simp
  have b: "mentions low_tier (toLowerCase (asc ''it is not urgent''))"
    unfolding mentions_def by code_simp
  from a b C10_extractUrgency_tier_order [of "asc ''it is not urgent''"] show ?thesis by blast
qed

text \<open>
  Claim C8. \<open>categorizeRequest\<close> tests blood keywords first, then emergency, elder
  support and complaint keywords, and defaults to \<open>general_inquiry\<close>. A message with a
  blood keyword is a \<open>blood_request\<close> whatever else it mentions, and every message gets
  exactly one of the five categories.
\<close>

theorem C8_categorizeRequest_order:
  "(mentions blood_words (toLowerCase text) \<longrightarrow> categorizeRequest text = ''blood_request'') \<and>
   categorizeRequest text =
    (let t = toLowerCase text in
     if mentions blood_words t then ''blood_request''
     else if mentions emergency_words t then ''emergency''
     else if mentions elder_words t then ''elder_support''
     else if mentions complaint_words t then ''complaint''
     else ''general_inquiry'') \<and>
   categorizeRequest text \<in> {''blood_request'', ''emergency'', ''elder_support'', ''complaint'', ''general_inquiry''}"
  by (simp add: categorizeRequest_mentions Let_def)

theorem C8_categorizeRequest_witness:
  "mentions blood_words (toLowerCase (asc ''Emergency: need blood'')) \<and>
   mentions emergency_words (toLowerCase (asc ''Emergency: need blood'')) \<and>
   categorizeRequest (asc ''Emergency: need blood'') = ''blood_request''"
proof -
  have a: "mentions blood_words (toLowerCase (asc ''Emergency: need blood''))"
    unfolding mentions_def by code_simp
  have b: "mentions emergency_words (toLowerCase (asc ''Emergency: need blood''))"
    unfolding mentions_def by code_simp
  from a b C8_categorizeRequest_order [of "asc ''Emergency: need blood''"] show ?thesis by blast
qed

text \<open>
  Claim C9. For a blood request with no slots the completeness check reports
  \<open>bloodType\<close>, and nothing once \<open>bloodType\<close> is \<open>O+\<close>. In general a blood request
  misses only \<open>bloodType\<close>, elder support misses \<open>serviceType\<close> only when both
  \<open>serviceType\<close> and \<open>supportType\<close> are absent, and a complaint misses only
  \<open>complaintCategory\<close>.
\<close>

theorem C9_getMissingRequiredInfo: "getMissingRequiredInfo ''blood_request'' Map.empty = [''bloodType'']
  \<and> getMissingRequiredInfo ''blood_request'' [''bloodType'' \<mapsto> JStr (asc ''O+'')] = []
  \<and> getMissingRequiredInfo ''blood_request'' info = (if lacks info ''bloodType'' then [''bloodType''] else [])
  \<and> getMissingRequiredInfo ''elder_support'' info =
       (if lacks info ''serviceType'' \<and> lacks info ''supportType'' then [''serviceType''] else [])
  \<and> getMissingRequiredInfo ''complaint'' info =
       (if lacks info ''complaintCategory'' then [''complaintCategory''] else [])"
  by (simp add: getMissingRequiredInfo_def lacks_def asc_def)

section \<open>Language detection: the order of the tests\<close>

lemma rx_test_Cls: "rx_test ic (Cls cs) s \<longleftrightarrow> (\<exists>c \<in> set s. cmem ic cs c)"
proof -
  have a: "rxm ic (Cls cs) (q, post, []) \<noteq> [] \<longleftrightarrow> (\<exists>x xs. post = x # xs \<and> cmem ic cs x)" for q post
    by (cases post) auto
  show ?thesis
    unfolding rx_test_def rx_match_def rx_exec_iff a
  proof
    assume "\<exists>pre post. s = pre @ post \<and> (\<exists>x xs. post = x # xs \<and> cmem ic cs x)"
    then show "\<exists>c \<in> set s. cmem ic cs c" by auto
  next
    assume "\<exists>c \<in> set s. cmem ic cs c"
    then obtain c where "c \<in> set s" "cmem ic cs c" by blast
    then obtain pre xs where "s = pre @ c # xs" by (auto simp: in_set_conv_decomp)
    with \<open>cmem ic cs c\<close> show "\<exists>pre post. s = pre @ post \<and> (\<exists>x xs. post = x # xs \<and> cmem ic cs x)"
      by blast
  qed
qed

lemma mentions_head_in_block:
  assumes "mentions ws s" "list_all (\<lambda>w. w \<noteq> [] \<and> cmem False cs (hd w)) ws"
  shows "\<exists>c \<in> set s. cmem False cs c"
proof -
  from assms(1) obtain w where w: "w \<in> set ws" "sublist w s" by (auto simp: mentions_def)
  with assms(2) have "w \<noteq> []" "cmem False cs (hd w)" by (auto simp: list_all_iff)
  moreover from w(2) have "set w \<subseteq> set s" by (auto simp: sublist_def)
  ultimately show ?thesis using hd_in_set by blast
qed

lemma telugu_keywords_in_block:
  "list_all (\<lambda>w. w \<noteq> [] \<and> cmem False telugu_block (hd w)) telugu_keywords"
  by code_simp

lemma hindi_keywords_in_block:
  "list_all (\<lambda>w. w \<noteq> [] \<and> cmem False devanagari_block (hd w)) hindi_keywords"
  by code_simp

lemma telugu_test: "rx_test False (Cls telugu_block) text \<or> rx_test False (alts telugu_keywords) text
   \<longleftrightarrow> (\<exists>c \<in> set text. 3072 \<le> c \<and> c \<le> 3199)"
proof -
  have "rx_test False (Cls telugu_block) text \<longleftrightarrow> (\<exists>c \<in> set text. 3072 \<le> c \<and> c \<le> 3199)"
    by (simp add: rx_test_Cls telugu_block_def in_folded_def)
  moreover have "rx_test False (Cls telugu_block) text" if "rx_test False (alts telugu_keywords) text"
    using mentions_head_in_block [OF _ telugu_keywords_in_block] that
    by (simp add: rx_test_Cls rx_test_alts_exact)
  ultimately show ?thesis by blast
qed

lemma hindi_test: "rx_test False (Cls devanagari_block) text \<or> rx_test False (alts hindi_keywords) text
   \<longleftrightarrow> (\<exists>c \<in> set text. 2304 \<le> c \<and> c \<le> 2431)"
proof -
  have "rx_test False (Cls devanagari_block) text \<longleftrightarrow> (\<exists>c \<in> set text. 2304 \<le> c \<and> c \<le> 2431)"
    by (simp add: rx_test_Cls devanagari_block_def in_folded_def)
  moreover have "rx_test False (Cls devanagari_block) text" if "rx_test False (alts hindi_keywords) text"
    using mentions_head_in_block [OF _ hindi_keywords_in_block] that
    by (simp add: rx_test_Cls rx_test_alts_exact)
  ultimately show ?thesis by blast
qed

text \<open>
  Claim C4, as stated, orders the script tests Devanagari first and promises \<open>en\<close> for
  plain English. The program tests the Telugu block first, so a text with both scripts is
  \<open>te\<close> where the stated order gives \<open>hi\<close>; and "positive" is a romanized Telugu
  keyword, so an English sentence with that word is \<open>te\<close>.
\<close>

theorem C4_detectLanguage_counterexample:
  "detectLanguageFromText [2326, 3120] = ''te'' \<and> spec_detectLanguage [2326, 3120] = ''hi''
   \<and> detectLanguageFromText (asc ''I need O positive blood'') = ''te''"
  by code_simp

text \<open>
  Claim C4, amended. \<open>detectLanguageFromText\<close> returns \<open>te\<close> for a text with a code
  unit of the Telugu block; otherwise \<open>hi\<close> for a text with a code unit of the Devanagari
  block; otherwise \<open>te\<close> when a romanized Telugu keyword occurs as a whole word,
  otherwise \<open>hi\<close> when a romanized Hindi keyword does, and \<open>en\<close> in every other case.
  The native keyword lists add nothing to the two block tests.
\<close>

theorem C4_detectLanguage_order:
  "detectLanguageFromText text =
    (if \<exists>c \<in> set text. 3072 \<le> c \<and> c \<le> 3199 then ''te''
     else if \<exists>c \<in> set text. 2304 \<le> c \<and> c \<le> 2431 then ''hi''
     else if rx_test True roman_telugu_rx text then ''te''
     else if rx_test True roman_hindi_rx text then ''hi''
     else ''en'')"
  unfolding detectLanguageFromText_def telugu_test hindi_test ..

theorem C4_detectLanguage_witness:
  "detectLanguageFromText ([2326, 2370, 2344] @ asc '' kavali'') = ''hi'' \<and>
   detectLanguageFromText (asc ''kavali khoon'') = ''te'' \<and>
   detectLanguageFromText (asc ''khoon chahiye'') = ''hi'' \<and>
   detectLanguageFromText (asc ''I need blood'') = ''en''"
proof -
  have a: "rx_test True roman_telugu_rx (asc ''kavali khoon'')" by code_simp
  have b: "\<not> rx_test True roman_telugu_rx (asc ''khoon chahiye'')" by code_simp
  have c: "rx_test True roman_hindi_rx (asc ''khoon chahiye'')" by code_simp
  have d: "\<not> rx_test True roman_telugu_rx (asc ''I need blood'')" by code_simp
  have e: "\<not> rx_test True roman_hindi_rx (asc ''I need blood'')" by code_simp
  show ?thesis
    using a b c d e C4_detectLanguage_order [of "[2326, 2370, 2344] @ asc '' kavali''"] C4_detectLanguage_order [of "asc ''kavali khoon''"]
      C4_detectLanguage_order [of "asc ''khoon chahiye''"] C4_detectLanguage_order [of "asc ''I need blood''"]
    by (simp add: asc_def)
qed

section \<open>Blood type extraction on native-script input\<close>

text \<open>
  Claim C3 asks that a blood-type token in Latin, Hindi or Telugu script is extracted.
  The native patterns start with \<open>\b\<close>, and a Devanagari or Telugu letter is not a
  word character, so they match only behind an ASCII letter, digit or underscore; the
  first pattern ends with \<open>\b\<close>, so a symbol form such as \<open>O+\<close> matches only in front
  of one. The three inputs are the two examples of the source's own comments ("e
  positive khoon", "e positive raktam" in native script) and "O+ blood needed"; the
  program returns \<open>null\<close> on each.
\<close>

theorem C3_extractBloodType_misses_tokens:
  "extractBloodType [2319, 32, 2346, 2377, 2332, 2367, 2335, 2367, 2357, 32, 2326, 2370, 2344] = None \<and>
   extractBloodType [3086, 32, 3114, 3134, 3100, 3135, 3103, 3135, 3125, 3149, 32, 3120, 3093, 3149, 3108, 3074] = None \<and>
   extractBloodType (asc ''O+ blood needed'') = None"
  by code_simp

section \<open>Replacement tables\<close>

lemma rxm_alt_list_set:
  "st' \<in> set (rxm ic (alt_list rs) st) \<Longrightarrow> \<exists>r \<in> set rs. st' \<in> set (rxm ic r st)"
proof (induction rs rule: alt_list.induct)
  case 1
  then show ?case by (cases st) (auto simp: in_folded_def split: list.splits)
next
  case (2 r)
  then show ?case by simp
next
  case (3 r v va)
  then show ?case by auto
qed

lemma rxm_alts_consumes:
  assumes "(p', s', c') \<in> set (rxm ic (alts ws) (p, s, c))" "[] \<notin> set ws"
  shows "length s' < length s"
proof -
  from rxm_alt_list_set [OF assms(1) [unfolded alts_def]]
  obtain w where w: "w \<in> set ws" and m: "(p', s', c') \<in> set (rxm ic (Lit w) (p, s, c))" by auto
  from m have "strip_lit ic w p s = Some (p', s')" by (auto split: option.splits)
  from strip_lit_sound [OF this] obtain x where "s = x @ s'" "list_all2 (ceq ic) w x" by blast
  moreover from w assms(2) have "w \<noteq> []" by auto
  ultimately show ?thesis by (auto simp: list_all2_Cons1 neq_Nil_conv)
qed

lemma rxm_alts_nonempty: "rxm ic (alts ws) (p, s, c) \<noteq> [] \<longleftrightarrow> (\<exists>w \<in> set ws. lit_at ic w s)"
proof -
  have "rxm ic (alts ws) (p, s, c) \<noteq> [] \<longleftrightarrow> (\<exists>r \<in> set (map Lit ws). rxm ic r (p, s, c) \<noteq> [])"
    unfolding alts_def by (rule rxm_alt_list)
  also have "\<dots> \<longleftrightarrow> (\<exists>w \<in> set ws. rxm ic (Lit w) (p, s, c) \<noteq> [])"
    by (simp del: rxm.simps)
  also have "\<dots> \<longleftrightarrow> (\<exists>w \<in> set ws. lit_at ic w s)"
    by (simp only: rxm_Lit_iff)
  finally show ?thesis .
qed

lemma rxm_alts_empty: "rxm ic (alts ws) (p, s, c) = [] \<longleftrightarrow> (\<forall>w \<in> set ws. \<not> lit_at ic w s)"
  using rxm_alts_nonempty [of ic ws p s c] by blast

lemma prefix_replace_all:
  "prefix v (rx_replace_all ic r rep p s) \<Longrightarrow> rep \<noteq> [] \<Longrightarrow> hd rep \<notin> set v \<Longrightarrow> prefix v s"
proof (induction ic r rep p s arbitrary: v rule: rx_replace_all.induct)
  case (1 ic r rep p)
  have "v = []"
  proof (rule ccontr)
    assume "v \<noteq> []"
    then obtain a v' where v: "v = a # v'" by (cases v) auto
    from "1.prems"(2) obtain b rep' where r: "rep = b # rep'" by (cases rep) auto
    from "1.prems"(1) have "prefix v [] \<or> prefix v rep" by (auto split: list.splits)
    with v r have "a = b" by auto
    with "1.prems"(3) v r show False by simp
  qed
  then show ?case by simp
next
  case (2 ic r rep p x xs)
  show ?case
  proof (cases v)
    case Nil
    then show ?thesis by simp
  next
    case (Cons a v')
    from "2.prems"(2) obtain b rep' where r: "rep = b # rep'" by (cases rep) auto
    show ?thesis
    proof (cases "rxm ic r (p, x # xs, [])")
      case Nil
      then have "rx_replace_all ic r rep p (x # xs) = x # rx_replace_all ic r rep (Some x) xs"
        by simp
      with "2.prems"(1) Cons have "a = x" "prefix v' (rx_replace_all ic r rep (Some x) xs)" by auto
      moreover from "2.prems"(3) Cons have "hd rep \<notin> set v'" by simp
      ultimately have "prefix v' xs" using "2.IH"(1) [OF Nil _ "2.prems"(2)] by blast
      with \<open>a = x\<close> Cons show ?thesis by simp
    next
      case (Cons st sts)
      obtain p' s' c' where st: "st = (p', s', c')" by (cases st)
      from Cons st have "\<exists>rest. rx_replace_all ic r rep p (x # xs) = rep @ rest"
        by (cases "length s' < length (x # xs)") simp_all
      with "2.prems"(1) obtain rest where "prefix v (rep @ rest)" by auto
      with r \<open>v = a # v'\<close> have "a = hd rep" by simp
      with "2.prems"(3) \<open>v = a # v'\<close> show ?thesis by simp
    qed
  qed
qed

lemma sublist_rep_append:
  assumes "sublist v (rep @ out)" "v \<noteq> []" "hd v \<notin> set rep"
  shows "sublist v out"
proof -
  from assms(1) consider "sublist v rep" | "sublist v out"
    | v1 v2 where "v = v1 @ v2" "suffix v1 rep" "prefix v2 out"
    unfolding sublist_append by blast
  then show ?thesis
  proof cases
    case 1
    then have "set v \<subseteq> set rep" by (auto simp: sublist_def)
    with assms(2,3) show ?thesis using hd_in_set by blast
  next
    case 2
    then show ?thesis .
  next
    case 3
    show ?thesis
    proof (cases v1)
      case Nil
      with 3 show ?thesis by (auto intro: prefix_imp_sublist)
    next
      case (Cons a l)
      with 3 have "hd v = a" "a \<in> set rep" by (auto simp: suffix_def)
      with assms(3) show ?thesis by simp
    qed
  qed
qed

lemma sublist_replace_all:
  "sublist v (rx_replace_all ic (alts ws) rep p s) \<Longrightarrow>
   rep \<noteq> [] \<Longrightarrow> v \<noteq> [] \<Longrightarrow> hd v \<notin> set rep \<Longrightarrow> hd rep \<notin> set v \<Longrightarrow> [] \<notin> set ws \<Longrightarrow>
     \<exists>t. suffix t s \<and> prefix v t \<and> (\<forall>w \<in> set ws. \<not> lit_at ic w t)"
proof (induction ic "alts ws" rep p s rule: rx_replace_all.induct)
  case (1 ic rep p)
  then have "sublist v [] \<or> sublist v rep" by (auto split: list.splits)
  then have "set v \<subseteq> set rep" using "1.prems"(3) by (auto simp: sublist_def)
  with "1.prems"(3,4) show ?case using hd_in_set by blast
next
  case (2 ic rep p x xs)
  note ne = "2.prems"(2) and vne = "2.prems"(3) and hv = "2.prems"(4) and hr = "2.prems"(5)
    and wne = "2.prems"(6)
  show ?case
  proof (cases "rxm ic (alts ws) (p, x # xs, [])")
    case Nil
    then have "rx_replace_all ic (alts ws) rep p (x # xs)
        = x # rx_replace_all ic (alts ws) rep (Some x) xs" by simp
    with "2.prems"(1) have "sublist v (x # rx_replace_all ic (alts ws) rep (Some x) xs)" by simp
    then consider "prefix v (x # rx_replace_all ic (alts ws) rep (Some x) xs)"
      | "sublist v (rx_replace_all ic (alts ws) rep (Some x) xs)"
      unfolding sublist_Cons_right by blast
    then show ?thesis
    proof cases
      case 1
      with vne obtain v' where v: "v = x # v'"
        and p: "prefix v' (rx_replace_all ic (alts ws) rep (Some x) xs)" by (cases v) auto
      from hr v have "hd rep \<notin> set v'" by simp
      from prefix_replace_all [OF p ne this] v have "prefix v (x # xs)" by simp
      moreover from Nil have "\<forall>w \<in> set ws. \<not> lit_at ic w (x # xs)" by (simp only: rxm_alts_empty)
      ultimately show ?thesis by blast
    next
      case 2
      from "2.hyps"(1) [OF Nil 2 ne vne hv hr wne] obtain t where "suffix t xs" "prefix v t"
        "\<forall>w \<in> set ws. \<not> lit_at ic w t" by blast
      then show ?thesis by (auto simp: suffix_Cons)
    qed
  next
    case (Cons st sts)
    obtain p' s' c' where st: "st = (p', s', c')" by (cases st)
    from Cons st have mem: "(p', s', c') \<in> set (rxm ic (alts ws) (p, x # xs, []))" by simp
    from rxm_alts_consumes [OF mem wne] have len: "length s' < length (x # xs)" .
    from rxm_suffix [OF mem] have suf: "suffix s' (x # xs)" .
    from Cons st len have "rx_replace_all ic (alts ws) rep p (x # xs)
        = rep @ rx_replace_all ic (alts ws) rep p' s'" by simp
    with "2.prems"(1) have "sublist v (rep @ rx_replace_all ic (alts ws) rep p' s')" by simp
    from sublist_rep_append [OF this vne hv]
    have "sublist v (rx_replace_all ic (alts ws) rep p' s')" .
    from "2.hyps"(2) [OF Cons st [symmetric] refl len this ne vne hv hr wne]
    obtain t where "suffix t s'" "prefix v t" "\<forall>w \<in> set ws. \<not> lit_at ic w t" by blast
    with suf show ?thesis using suffix_order.trans by blast
  qed
qed

lemma native_not_letter: "is_native c \<or> c = 32 \<Longrightarrow> \<not> is_lower c \<and> \<not> is_upper c"
  by (auto simp: is_native_def is_lower_def is_upper_def)

lemma ci_native_eq:
  "list_all2 (ceq True) w x \<Longrightarrow> \<forall>c \<in> set w. is_native c \<or> c = 32 \<Longrightarrow> w = x"
proof (induction w x rule: list_all2_induct)
  case Nil
  show ?case by simp
next
  case (Cons a w b x)
  from Cons.prems have "\<not> is_lower a \<and> \<not> is_upper a" by (simp add: native_not_letter)
  with Cons.hyps(1) have "a = b"
    by (auto simp: ceq_def canon_def is_lower_def is_upper_def split: if_splits)
  with Cons show ?case by simp
qed

lemma lit_at_native: "pattern_ok w \<Longrightarrow> lit_at True w s \<longleftrightarrow> prefix w s"
proof
  assume ok: "pattern_ok w" and "lit_at True w s"
  then obtain x r where s: "s = x @ r" and m: "list_all2 (ceq True) w x" by (auto simp: lit_at_def)
  from ok have "\<forall>c \<in> set w. is_native c \<or> c = 32" by (simp add: pattern_ok_def list_all_iff)
  from ci_native_eq [OF m this] s show "prefix w s" by simp
next
  assume "prefix w s"
  then obtain r where "s = w @ r" by (auto simp: prefix_def)
  moreover have "list_all2 (ceq True) w w" by (simp add: list_all2_same ceq_def)
  ultimately show "lit_at True w s" unfolding lit_at_def by blast
qed

lemma lit_in_native: "pattern_ok w \<Longrightarrow> lit_in True w s \<longleftrightarrow> sublist w s"
proof
  assume ok: "pattern_ok w" and "lit_in True w s"
  then obtain pre x post where s: "s = pre @ x @ post" and m: "list_all2 (ceq True) w x"
    by (auto simp: lit_in_def)
  from ok have "\<forall>c \<in> set w. is_native c \<or> c = 32" by (simp add: pattern_ok_def list_all_iff)
  from ci_native_eq [OF m this] s show "sublist w s" by (auto simp: sublist_def)
next
  assume "sublist w s"
  then obtain pre post where "s = pre @ w @ post" by (auto simp: sublist_def)
  moreover have "list_all2 (ceq True) w w" by (simp add: list_all2_same ceq_def)
  ultimately show "lit_in True w s" unfolding lit_in_def by blast
qed

lemma pattern_rep_disjoint:
  assumes "pattern_ok v" "rep_ok rep"
  shows "rep \<noteq> []" "v \<noteq> []" "hd v \<notin> set rep" "hd rep \<notin> set v"
proof -
  from assms show "rep \<noteq> []" "v \<noteq> []" by (simp_all add: pattern_ok_def rep_ok_def)
  from assms show "hd v \<notin> set rep" by (auto simp: pattern_ok_def rep_ok_def list_all_iff)
  from assms have "hd rep \<in> set rep" by (simp add: rep_ok_def)
  with assms have "\<not> is_native (hd rep)" "hd rep \<noteq> 32" by (auto simp: rep_ok_def list_all_iff)
  with assms show "hd rep \<notin> set v" by (auto simp: pattern_ok_def list_all_iff)
qed

text \<open>One replacement step neither leaves nor creates an occurrence of a pattern word.\<close>

lemma replace_all_preserves:
  assumes "pattern_ok v" "rep_ok rep" "list_all pattern_ok ws" "\<not> sublist v s"
  shows "\<not> sublist v (rx_replace_all True (alts ws) rep p s)"
proof
  assume a: "sublist v (rx_replace_all True (alts ws) rep p s)"
  from assms(3) have "[] \<notin> set ws" by (auto simp: list_all_iff pattern_ok_def)
  from sublist_replace_all [OF a pattern_rep_disjoint [OF assms(1,2)] this]
  obtain t where "suffix t s" "prefix v t" by blast
  then have "sublist v s" by (auto simp: sublist_def prefix_def suffix_def)
  with assms(4) show False by simp
qed

lemma replace_all_removes:
  assumes "v \<in> set ws" "rep_ok rep" "list_all pattern_ok ws"
  shows "\<not> sublist v (rx_replace_all True (alts ws) rep p s)"
proof
  assume a: "sublist v (rx_replace_all True (alts ws) rep p s)"
  from assms(1,3) have ok: "pattern_ok v" by (auto simp: list_all_iff)
  from assms(3) have "[] \<notin> set ws" by (auto simp: list_all_iff pattern_ok_def)
  from sublist_replace_all [OF a pattern_rep_disjoint [OF ok assms(2)] this]
  obtain t where "prefix v t" "\<forall>w \<in> set ws. \<not> lit_at True w t" by blast
  with assms(1) lit_at_native [OF ok] show False by blast
qed

lemma replace_all_noop:
  "\<forall>w \<in> set ws. \<not> lit_in ic w s \<Longrightarrow> rx_replace_all ic (alts ws) rep p s = s"
proof (induction s arbitrary: p)
  case Nil
  have "\<not> lit_at ic w []" if "w \<in> set ws" for w
    using Nil that unfolding lit_at_def lit_in_def by (metis append_Nil)
  then have "rxm ic (alts ws) (p, [], []) = []" by (simp only: rxm_alts_empty) blast
  then show ?case by simp
next
  case (Cons x xs)
  have "\<not> lit_at ic w (x # xs)" if "w \<in> set ws" for w
    using Cons.prems that unfolding lit_at_def lit_in_def by (metis append_Nil)
  then have e: "rxm ic (alts ws) (p, x # xs, []) = []" by (simp only: rxm_alts_empty) blast
  have "\<not> lit_in ic w xs" if "w \<in> set ws" for w
  proof
    assume "lit_in ic w xs"
    then obtain pre y post where "xs = pre @ y @ post" "list_all2 (ceq ic) w y"
      by (auto simp: lit_in_def)
    then have "x # xs = (x # pre) @ y @ post \<and> list_all2 (ceq ic) w y" by simp
    then have "lit_in ic w (x # xs)" unfolding lit_in_def by blast
    with Cons.prems that show False by blast
  qed
  then have "rx_replace_all ic (alts ws) rep (Some x) xs = xs" by (intro Cons.IH) blast
  with e show ?case by simp
qed

text \<open>A text is clean for a table when no pattern word of the table occurs in it.\<close>

lemma apply_table_preserves:
  "table_ok rows \<Longrightarrow> list_all pattern_ok vs \<Longrightarrow> \<forall>v \<in> set vs. \<not> sublist v s \<Longrightarrow>
     \<forall>v \<in> set vs. \<not> sublist v (apply_table rows s)"
proof (induction rows arbitrary: s)
  case Nil
  then show ?case by simp
next
  case (Cons row rows)
  obtain ws rep where row: "row = (ws, rep)" by (cases row)
  from Cons.prems(1) row have ok: "rep_ok rep" "list_all pattern_ok ws" "table_ok rows"
    by (simp_all add: table_ok_def)
  have "\<forall>v \<in> set vs. \<not> sublist v (rx_replace_all True (alts ws) rep None s)"
    using replace_all_preserves [OF _ ok(1,2)] Cons.prems(2,3) by (auto simp: list_all_iff)
  from Cons.IH [OF ok(3) Cons.prems(2) this] row show ?case by simp
qed

lemma apply_table_clean:
  "table_ok rows \<Longrightarrow> (ws, rep) \<in> set rows \<Longrightarrow> v \<in> set ws \<Longrightarrow> \<not> sublist v (apply_table rows s)"
proof (induction rows arbitrary: s)
  case Nil
  then show ?case by simp
next
  case (Cons row rows)
  obtain ws0 rep0 where row: "row = (ws0, rep0)" by (cases row)
  from Cons.prems(1) row have ok: "rep_ok rep0" "list_all pattern_ok ws0" "table_ok rows"
    by (simp_all add: table_ok_def)
  let ?s1 = "rx_replace_all True (alts ws0) rep0 None s"
  show ?case
  proof (cases "(ws, rep) \<in> set rows")
    case True
    from Cons.IH [OF ok(3) True Cons.prems(3)] row show ?thesis by simp
  next
    case False
    with Cons.prems(2) row have eq: "ws = ws0" "rep = rep0" by auto
    have "\<forall>u \<in> set ws0. \<not> sublist u ?s1"
      using replace_all_removes [OF _ ok(1,2)] by blast
    from apply_table_preserves [OF ok(3) ok(2) this] Cons.prems(3) eq row
    show ?thesis by simp
  qed
qed

lemma apply_table_noop:
  "table_ok rows \<Longrightarrow> \<forall>(ws, rep) \<in> set rows. \<forall>v \<in> set ws. \<not> sublist v s \<Longrightarrow> apply_table rows s = s"
proof (induction rows)
  case Nil
  show ?case by simp
next
  case (Cons row rows)
  obtain ws rep where row: "row = (ws, rep)" by (cases row)
  from Cons.prems(1) row have ok: "list_all pattern_ok ws" "table_ok rows"
    by (simp_all add: table_ok_def)
  have "\<forall>w \<in> set ws. \<not> lit_in True w s"
    using Cons.prems(2) row ok(1) lit_in_native by (auto simp: list_all_iff)
  then have "rx_replace_all True (alts ws) rep None s = s" by (rule replace_all_noop)
  moreover from Cons.prems(2) have "\<forall>(ws, rep) \<in> set rows. \<forall>v \<in> set ws. \<not> sublist v s" by simp
  ultimately show ?case using Cons.IH [OF ok(2)] row by simp
qed

lemma apply_table_append: "apply_table (r1 @ r2) s = apply_table r2 (apply_table r1 s)"
  by (induction r1 arbitrary: s) auto

lemma tables_ok: "table_ok (hindi_table @ telugu_table)"
  by code_simp

lemma apply_tables_idem:
  "apply_table (hindi_table @ telugu_table) (apply_table (hindi_table @ telugu_table) s)
     = apply_table (hindi_table @ telugu_table) s"
  using apply_table_noop [OF tables_ok] apply_table_clean [OF tables_ok] by blast

text \<open>
  Claim C7. \<open>translateToEnglish\<close> is idempotent, and a text with no code unit of the
  Devanagari or Telugu block is returned as it is.
\<close>

theorem C7_translateToEnglish_idempotent:
  "translateToEnglish (translateToEnglish x) = translateToEnglish x \<and>
   (list_all (\<lambda>c. \<not> is_native c) x \<longrightarrow> translateToEnglish x = x)"
proof -
  have g: "rx_test False (Cls native_blocks) t \<longleftrightarrow> (\<exists>c \<in> set t. is_native c)" for t
    by (simp add: rx_test_Cls native_blocks_def is_native_def in_folded_def)
  have "translateToEnglish (translateToEnglish x) = translateToEnglish x"
    using apply_tables_idem [of x]
    by (simp add: translateToEnglish_def apply_table_append)
  moreover have "translateToEnglish x = x" if "list_all (\<lambda>c. \<not> is_native c) x"
    using that by (simp add: translateToEnglish_def g list_all_iff)
  ultimately show ?thesis by blast
qed

theorem C7_translateToEnglish_witness:
  "list_all (\<lambda>c. \<not> is_native c) (asc ''need blood'') \<and> translateToEnglish (asc ''need blood'') = asc ''need blood''
   \<and> translateToEnglish [2326, 2370, 2344, 32, 2330, 2366, 2361, 2367, 2319] = asc ''blood need''
   \<and> translateToEnglish (translateToEnglish [2326, 2370, 2344, 32, 2330, 2366, 2361, 2367, 2319])
       = translateToEnglish [2326, 2370, 2344, 32, 2330, 2366, 2361, 2367, 2319]"
proof -
  have a: "list_all (\<lambda>c. \<not> is_native c) (asc ''need blood'')" by code_simp
  have b: "translateToEnglish [2326, 2370, 2344, 32, 2330, 2366, 2361, 2367, 2319] = asc ''blood need''"
    by code_simp
  from a b C7_translateToEnglish_idempotent [of "asc ''need blood''"] C7_translateToEnglish_idempotent [of "[2326, 2370, 2344, 32, 2330, 2366, 2361, 2367, 2319]"]
  show ?thesis by blast
qed

section \<open>Request creation\<close>

text \<open>
  Claim C1. When the slots have no (truthy) \<open>bloodType\<close>, creating a
  \<open>blood_request\<close> throws and stores nothing, whatever the user, the message, the
  priority and the AI service did; for a registered user the error is the validation
  error. The error ends only the creation: the branch of the handler that called it
  answers with the apology and no request identifier.
\<close>

theorem C1_blood_request_requires_bloodType:
  assumes "lacks extractedInfo ''bloodType''"
  shows "(\<exists>err. createRequestFromChatWithInfo e w userId msg ''blood_request'' priority extractedInfo
              = (Inl err, w)
            \<and> (users e userId \<noteq> None \<longrightarrow> err = BloodTypeRequired)) \<and>
         finalize_branch e a w userId msg g ''blood_request'' priority extractedInfo missing nmi ge
           = (Ok (mk_payload g ''blood_request'' priority extractedInfo missing nmi SaveErrorApology
                    None ge), w)"
  using assms
  by (auto simp: createRequestFromChatWithInfo_def finalize_branch_def split: option.splits)

theorem C1_blood_request_witness:
  "lacks Map.empty ''bloodType'' \<and>
   createRequestFromChatWithInfo demo_env empty_world ''u1'' (asc ''I need blood'') ''blood_request''
      ''high'' Map.empty = (Inl BloodTypeRequired, empty_world)"
  using C1_blood_request_requires_bloodType [of Map.empty demo_env empty_world "''u1''" "asc ''I need blood''" "''high''"]
  by (auto simp: lacks_def demo_env_def)

text \<open>
  Claim C2 states the precedence "urgency found in the message, else the urgency of the
  slots, else high" for the urgency level and the priority of a stored blood request.
  That computation stands in the first declaration of \<open>createRequestFromChatWithInfo\<close>,
  which the second declaration replaces. The declaration that runs never looks at the
  message: the urgency level is the one of the slots, else \<open>urgent\<close> or \<open>high\<close> by the
  classifier's priority, and the priority is the classifier's.
\<close>

lemma effective_declaration_urgency:
  assumes "createRequestFromChatWithInfo e w userId msg ''blood_request'' priority extractedInfo
             = (Inr (rid, doc), w')"
  shows "doc ''urgencyLevel'' = Some (or_else extractedInfo ''urgencyLevel''
            (if priority = ''urgent'' then JStr (asc ''urgent'') else JStr (asc ''high'')))
       \<and> doc ''priority'' = Some (JStr (asc (mapPriority priority)))"
  using assms
  by (auto simp: createRequestFromChatWithInfo_def blood_fields_def common_fields_def Let_def
           split: option.splits if_splits)

lemma replaced_declaration_three_tier:
  "replaced_declaration_urgency msg info = Some u \<Longrightarrow>
     u = (case extractUrgency msg of
            Some r \<Rightarrow> asc r
          | None \<Rightarrow> (case info ''urgencyLevel'' of
                       Some (JStr s) \<Rightarrow> if s \<noteq> [] then toLowerCase s else asc ''high''
                     | _ \<Rightarrow> asc ''high''))"
proof -
  assume r: "replaced_declaration_urgency msg info = Some u"
  have "toLowerCase s = [] \<longleftrightarrow> s = []" for s
    by (cases s) (auto simp: toLowerCase_def lower_units_def)
  with r show ?thesis
    by (auto simp: replaced_declaration_urgency_def Let_def
             split: option.splits jsval.splits if_splits)
qed

lemma asc_Cons_nonempty: "asc (c # cs) \<noteq> []"
  by (simp add: asc_def)

lemma wait_facts:
  "trim (asc ''need O+ blood, can wait'') = asc ''need O+ blood, can wait''"
  "categorizeRequest (asc ''need O+ blood, can wait'') = ''blood_request''"
  "determinePriority (asc ''need O+ blood, can wait'') = ''medium''"
  "extractUrgency (asc ''need O+ blood, can wait'') = Some ''low''"
  "extractBloodType (asc ''need O+ blood, can wait'') = Some (asc ''O+'')"
  "rx_match True unitsPattern (asc ''need O+ blood, can wait'') = None"
  "rx_match True hospitalPattern (asc ''need O+ blood, can wait'') = None"
  by code_simp+

lemma wait_includes:
  "\<not> includes_any (toLowerCase (asc ''need O+ blood, can wait'')) [''my mother'', ''mom'']"
  "\<not> includes_any (toLowerCase (asc ''need O+ blood, can wait'')) [''my father'', ''dad'']"
  "\<not> includes_any (toLowerCase (asc ''need O+ blood, can wait'')) [''my brother'']"
  "\<not> includes_any (toLowerCase (asc ''need O+ blood, can wait'')) [''my sister'']"
  "\<not> includes_any (toLowerCase (asc ''need O+ blood, can wait'')) [''my friend'']"
  "\<not> includes_any (toLowerCase (asc ''need O+ blood, can wait'')) [''myself'', ''for me'']"
  "\<not> includes_any (toLowerCase (asc ''need O+ blood, can wait'')) [''urgent'', ''emergency'', ''immediately'']"
  "\<not> includes_any (toLowerCase (asc ''need O+ blood, can wait'')) [''today'']"
  "\<not> includes_any (toLowerCase (asc ''need O+ blood, can wait'')) [''tomorrow'']"
  by code_simp+

lemma wait_extract:
  "extract_blood now (asc ''need O+ blood, can wait'') Map.empty = [''bloodType'' \<mapsto> JStr (asc ''O+'')]"
  by (simp add: extract_blood_def wait_facts wait_includes asc_Cons_nonempty Let_def)

text \<open>
  Claim C2 at two inputs. The message says "can wait", so the urgency found in it is
  \<open>low\<close>. With an AI suggestion \<open>high\<close> in the slots the stored urgency level is
  \<open>high\<close> and the priority \<open>medium\<close>; on the heuristic path the stored urgency level is
  \<open>low\<close> and the priority \<open>medium\<close>.
\<close>

theorem C2_urgency_of_effective_declaration:
  "extractUrgency (asc ''need O+ blood, can wait'') = Some ''low'' \<and>
   (case createRequestFromChatWithInfo demo_env empty_world ''u1'' (asc ''need O+ blood, can wait'')
           ''blood_request'' ''medium''
           [''bloodType'' \<mapsto> JStr (asc ''O+''), ''urgencyLevel'' \<mapsto> JStr (asc ''high'')] of
      (Inr (rid, doc), w') \<Rightarrow>
         doc ''urgencyLevel'' = Some (JStr (asc ''high'')) \<and> doc ''priority'' = Some (JStr (asc ''medium''))
    | _ \<Rightarrow> False) \<and>
   (case text_handler demo_env ai_down empty_world ''u1''
           \<lparr>message = Some (asc ''need O+ blood, can wait''), conversationContext = Map.empty\<rparr> of
      (Ok p, w') \<Rightarrow>
         p_createdRequestId p = Some 0 \<and>
         hd (requests w') ''urgencyLevel'' = Some (JStr (asc ''low'')) \<and>
         hd (requests w') ''priority'' = Some (JStr (asc ''medium''))
    | _ \<Rightarrow> False)"
proof -
  have a: "(case createRequestFromChatWithInfo demo_env empty_world ''u1'' (asc ''need O+ blood, can wait'')
           ''blood_request'' ''medium''
           [''bloodType'' \<mapsto> JStr (asc ''O+''), ''urgencyLevel'' \<mapsto> JStr (asc ''high'')] of
      (Inr (rid, doc), w') \<Rightarrow>
         doc ''urgencyLevel'' = Some (JStr (asc ''high'')) \<and> doc ''priority'' = Some (JStr (asc ''medium''))
    | _ \<Rightarrow> False)"
    by (simp add: createRequestFromChatWithInfo_def demo_env_def lacks_def asc_Cons_nonempty
        blood_fields_def common_fields_def or_else_def mapPriority_def Let_def)
  let ?m = "asc ''need O+ blood, can wait''"
  let ?g = "classification_of ai_down ?m"
  let ?ge = "\<lparr>e_success = False, e_usingFallback = True, e_extractedInfo = Map.empty,
                e_missingRequired = None, e_needsMoreInfo = False\<rparr>"
  have ai: "ai_classify ai_down = None" "ai_extract ai_down = Some ?ge" "ai_confirm ai_down = None"
    by (simp_all add: ai_down_def)
  have env: "users demo_env ''u1'' = Some demo_user" "accepts demo_env d" "chat_ok demo_env"
    "mark_ok demo_env" for d
    by (simp_all add: demo_env_def)
  have g: "g_category ?g = Some ''blood_request''" "g_priority ?g = Some ''medium''"
    by (simp_all add: classification_of_def ai wait_facts Let_def)
  have fc: "finalCategory_of ?g ?m = ''blood_request''"
    by (simp add: finalCategory_of_def g Let_def)
  have fp: "finalPriority_of ?g ?m = ''medium''"
    by (simp add: finalPriority_of_def g)
  let ?info = "[''bloodType'' \<mapsto> JStr (asc ''O+''), ''urgencyLevel'' \<mapsto> JStr (asc ''low'')]"
  have ex: "extraction_step demo_env ?ge ?m ''blood_request'' Map.empty = (?info, [], False)"
    by (simp add: extraction_step_def extractRequestInfo_def wait_extract wait_facts lacks_def
        getMissingRequiredInfo_def asc_Cons_nonempty Let_def)
  let ?doc = "(blood_fields (clock demo_env) demo_user ?m ''medium'' ?info
                (common_fields ''u1'' demo_user ''blood'' ''medium''))
              (''source'' \<mapsto> JStr (asc ''text_chat''))"
  have cr: "createRequestFromChatWithInfo demo_env empty_world ''u1'' ?m ''blood_request'' ''medium'' ?info
      = (Inr (0, ?doc), empty_world\<lparr>requests := [?doc]\<rparr>)"
    by (simp add: createRequestFromChatWithInfo_def env lacks_def asc_Cons_nonempty empty_world_def
        Let_def)
  obtain p w' where fin: "finalize_branch demo_env ai_down empty_world ''u1'' ?m ?g ''blood_request''
      ''medium'' ?info [] False False = (Ok p, w')"
    and p: "p_createdRequestId p = Some 0" and w: "requests w' = [?doc]"
    by (simp add: finalize_branch_def cr env ai mk_payload_def Let_def)
  have t: "text_handler demo_env ai_down empty_world ''u1''
           \<lparr>message = Some ?m, conversationContext = Map.empty\<rparr> = (Ok p, w')"
    by (simp add: text_handler_def wait_facts asc_Cons_nonempty fc fp shouldCreateRequest_def ai ex
        fin Let_def)
  have d: "?doc ''urgencyLevel'' = Some (JStr (asc ''low''))" "?doc ''priority'' = Some (JStr (asc ''medium''))"
    by (simp_all add: blood_fields_def common_fields_def or_else_def mapPriority_def asc_Cons_nonempty
        Let_def)
  have b: "(case text_handler demo_env ai_down empty_world ''u1''
           \<lparr>message = Some ?m, conversationContext = Map.empty\<rparr> of
      (Ok p, w') \<Rightarrow>
         p_createdRequestId p = Some 0 \<and>
         hd (requests w') ''urgencyLevel'' = Some (JStr (asc ''low'')) \<and>
         hd (requests w') ''priority'' = Some (JStr (asc ''medium''))
    | _ \<Rightarrow> False)"
    unfolding t using p w d by simp
  from a b wait_facts(4) show ?thesis by blast
qed

section \<open>The outcome of a turn\<close>

lemma trim_need: "trim (asc ''I need O+ blood'') = asc ''I need O+ blood''"
  by code_simp

text \<open>
  Claim C5, as stated, excludes a payload with a request identifier and
  \<open>needsMoreInfo\<close>. The follow-up branch is taken only when \<open>needsMoreInfo\<close> holds and
  the list of missing fields is non-empty, and the payload reports \<open>needsMoreInfo\<close> as
  the AI extraction gave it: with \<open>needsMoreInfo\<close> and an empty list the request is
  created and the payload has both.
\<close>

theorem C5_payload_counterexample:
  "(case text_handler demo_env ai_inconsistent empty_world ''u1''
           \<lparr>message = Some (asc ''I need O+ blood''), conversationContext = Map.empty\<rparr> of
      (Ok p, w') \<Rightarrow> p_createdRequestId p = Some 0 \<and> p_needsMoreInfo p
    | _ \<Rightarrow> False)"
proof -
  have ne: "asc ''I need O+ blood'' \<noteq> []" "asc ''O+'' \<noteq> []" by (simp_all add: asc_def)
  show ?thesis
    using ne
    by (simp add: text_handler_def trim_need classification_of_def ai_inconsistent_def
        finalCategory_of_def finalPriority_of_def shouldCreateRequest_def extraction_step_def
        finalize_branch_def createRequestFromChatWithInfo_def demo_env_def lacks_def
        empty_world_def mk_payload_def Let_def)
qed

lemma finalize_created:
  "finalize_branch e a w uid m g c pr info missing nmi ge = (Ok p, w') \<Longrightarrow>
     p_needsMoreInfo p = nmi \<and> p_missingInfo p = missing"
  by (auto simp: finalize_branch_def mk_payload_def Let_def split: prod.splits sum.splits if_splits)

lemma follow_up_not_created:
  "follow_up_branch e a w uid m g c pr info missing nmi ge = (Ok p, w') \<Longrightarrow>
     p_createdRequestId p = None"
  by (auto simp: follow_up_branch_def mk_payload_def Let_def split: option.splits if_splits)

lemma general_not_created:
  "general_branch e w uid m g c pr = (Ok p, w') \<Longrightarrow> p_createdRequestId p = None \<and> \<not> p_needsMoreInfo p"
  by (auto simp: general_branch_def mk_payload_def Let_def split: option.splits if_splits)

lemma heuristic_extraction_flag:
  "\<not> (e_success ge \<and> \<not> e_usingFallback ge) \<Longrightarrow>
   extraction_step e ge m c ctx = (info, missing, nmi) \<Longrightarrow> nmi = (missing \<noteq> [])"
  by (auto simp: extraction_step_def Let_def)

text \<open>
  Claim C5, amended. A payload never has a request identifier together with
  \<open>needsMoreInfo\<close> and a non-empty list of missing fields; and when the slots come from
  the heuristic extraction (the AI extraction failed or fell back), a payload never has a
  request identifier together with \<open>needsMoreInfo\<close>.
\<close>

theorem C5_payload_outcomes:
  assumes "text_handler e a w userId req = (Ok p, w')"
  shows "(p_createdRequestId p \<noteq> None \<longrightarrow> \<not> (p_needsMoreInfo p \<and> p_missingInfo p \<noteq> [])) \<and>
         ((\<forall>ge. ai_extract a = Some ge \<longrightarrow> \<not> (e_success ge \<and> \<not> e_usingFallback ge)) \<longrightarrow>
            \<not> (p_createdRequestId p \<noteq> None \<and> p_needsMoreInfo p))"
proof (cases "message req")
  case None
  with assms show ?thesis by (simp add: text_handler_def)
next
  case (Some m)
  show ?thesis
  proof (cases "m = [] \<or> trim m = []")
    case True
    with assms Some show ?thesis by (simp add: text_handler_def)
  next
    case False
    define tm where "tm = trim m"
    define g where "g = classification_of a tm"
    define fc where "fc = finalCategory_of g tm"
    define fp where "fp = finalPriority_of g tm"
    show ?thesis
    proof (cases "shouldCreateRequest fc")
      case no: False
      with assms Some False have "general_branch e w userId tm g fc fp = (Ok p, w')"
        by (simp add: text_handler_def Let_def tm_def g_def fc_def fp_def)
      from general_not_created [OF this] show ?thesis by simp
    next
      case yes: True
      show ?thesis
      proof (cases "ai_extract a")
        case None
        with assms Some False yes show ?thesis
          by (simp add: text_handler_def Let_def tm_def g_def fc_def fp_def)
      next
        case (Some ge)
        obtain info missing nmi where
          ex: "extraction_step e ge tm fc (conversationContext req) = (info, missing, nmi)"
          by (cases "extraction_step e ge tm fc (conversationContext req)") auto
        show ?thesis
        proof (cases "nmi \<and> missing \<noteq> []")
          case True
          with assms \<open>message req = Some m\<close> False yes Some ex
          have "follow_up_branch e a w userId tm g fc fp info missing nmi (e_success ge) = (Ok p, w')"
            by (simp add: text_handler_def Let_def tm_def g_def fc_def fp_def)
          from follow_up_not_created [OF this] show ?thesis by simp
        next
          case nf: False
          with assms \<open>message req = Some m\<close> False yes Some ex
          have "finalize_branch e a w userId tm g fc fp info missing nmi (e_success ge) = (Ok p, w')"
            by (auto simp add: text_handler_def Let_def tm_def g_def fc_def fp_def split: if_splits)
          from finalize_created [OF this] have eq: "p_needsMoreInfo p = nmi" "p_missingInfo p = missing"
            by simp_all
          have "\<not> nmi" if "\<not> (e_success ge \<and> \<not> e_usingFallback ge)"
            using heuristic_extraction_flag [OF that ex] nf by blast
          with eq nf Some show ?thesis by auto
        qed
      qed
    qed
  qed
qed

lemma turn1_facts:
  "trim (asc ''I need blood'') = asc ''I need blood''"
  "categorizeRequest (asc ''I need blood'') = ''blood_request''"
  "determinePriority (asc ''I need blood'') = ''medium''"
  "extractUrgency (asc ''I need blood'') = None"
  "extractBloodType (asc ''I need blood'') = None"
  "rx_match True unitsPattern (asc ''I need blood'') = None"
  "rx_match True hospitalPattern (asc ''I need blood'') = None"
  by code_simp+

lemma turn1_includes:
  "\<not> includes_any (toLowerCase (asc ''I need blood'')) [''my mother'', ''mom'']"
  "\<not> includes_any (toLowerCase (asc ''I need blood'')) [''my father'', ''dad'']"
  "\<not> includes_any (toLowerCase (asc ''I need blood'')) [''my brother'']"
  "\<not> includes_any (toLowerCase (asc ''I need blood'')) [''my sister'']"
  "\<not> includes_any (toLowerCase (asc ''I need blood'')) [''my friend'']"
  "\<not> includes_any (toLowerCase (asc ''I need blood'')) [''myself'', ''for me'']"
  "\<not> includes_any (toLowerCase (asc ''I need blood'')) [''urgent'', ''emergency'', ''immediately'']"
  "\<not> includes_any (toLowerCase (asc ''I need blood'')) [''today'']"
  "\<not> includes_any (toLowerCase (asc ''I need blood'')) [''tomorrow'']"
  by code_simp+

lemma turn1_extract: "extract_blood now (asc ''I need blood'') Map.empty = Map.empty"
  by (simp add: extract_blood_def turn1_facts turn1_includes Let_def)

lemma turn2_facts:
  "trim (asc ''AB negative'') = asc ''AB negative''"
  "categorizeRequest (asc ''AB negative'') = ''general_inquiry''"
  "determinePriority (asc ''AB negative'') = ''medium''"
  "extractBloodType (asc ''AB negative'') = Some (asc ''AB-'')"
  by code_simp+

lemma heuristic_two_turns:
  assumes "ai_classify a1 = None" "ai_extract a1 = Some ge" "\<not> (e_success ge \<and> \<not> e_usingFallback ge)"
    and "ai_followUp a1 = Some q" "\<not> (q_success q \<and> \<not> q_usingFallback q)"
    and "ai_classify a2 = None" "chat_ok e"
  shows "\<exists>p1 w1 p2 w2.
     text_handler e a1 w userId
        \<lparr>message = Some (asc ''I need blood''), conversationContext = Map.empty\<rparr> = (Ok p1, w1)
     \<and> p_category p1 = ''blood_request'' \<and> p_needsMoreInfo p1 \<and> p_missingInfo p1 = [''bloodType'']
     \<and> p_response p1 = Question AskBloodType \<and> p_createdRequestId p1 = None
     \<and> requests w1 = requests w
     \<and> ch_pendingRequest (last (chats w1)) \<and> ch_extractedInfo (last (chats w1)) = Some (p_extractedInfo p1)
     \<and> text_handler e a2 w1 userId
        \<lparr>message = Some (asc ''AB negative''), conversationContext = p_extractedInfo p1\<rparr> = (Ok p2, w2)
     \<and> p_category p2 = ''general_inquiry'' \<and> p_createdRequestId p2 = None
     \<and> p_response p2 = GeneralResponse (asc ''AB negative'')
     \<and> p_extractedInfo p2 ''bloodType'' = None \<and> requests w2 = requests w"
proof -
  let ?g1 = "classification_of a1 (asc ''I need blood'')"
  let ?info = "[''urgencyLevel'' \<mapsto> JNull]"
  let ?p1 = "mk_payload ?g1 ''blood_request'' ''medium'' ?info [''bloodType''] True
               (Question AskBloodType) None (e_success ge)"
  let ?w1 = "w\<lparr>chats := chats w @ [mk_chat userId (asc ''I need blood'') (Question AskBloodType)
               ''blood_request'' ''medium'' ?g1 True (Some ?info) [''bloodType'']]\<rparr>"
  have g1: "g_category ?g1 = Some ''blood_request''" "g_priority ?g1 = Some ''medium''"
    using assms(1) by (simp_all add: classification_of_def turn1_facts Let_def)
  have fc1: "finalCategory_of ?g1 (asc ''I need blood'') = ''blood_request''"
    by (simp add: finalCategory_of_def g1 Let_def)
  have fp1: "finalPriority_of ?g1 (asc ''I need blood'') = ''medium''"
    by (simp add: finalPriority_of_def g1)
  have ex1: "extraction_step e ge (asc ''I need blood'') ''blood_request'' Map.empty
               = (?info, [''bloodType''], True)"
    using assms(3)
    by (auto simp: extraction_step_def extractRequestInfo_def turn1_extract turn1_facts lacks_def
        getMissingRequiredInfo_def Let_def)
  have t1: "text_handler e a1 w userId
        \<lparr>message = Some (asc ''I need blood''), conversationContext = Map.empty\<rparr> = (Ok ?p1, ?w1)"
    using assms(2,4,5,7)
    by (auto simp: text_handler_def turn1_facts asc_Cons_nonempty fc1 fp1 ex1 shouldCreateRequest_def
        follow_up_branch_def generateFollowUpQuestion_def Let_def)
  let ?g2 = "classification_of a2 (asc ''AB negative'')"
  let ?p2 = "mk_payload ?g2 ''general_inquiry'' ''medium'' Map.empty [] False
               (GeneralResponse (asc ''AB negative'')) None False"
  let ?w2 = "?w1\<lparr>chats := chats ?w1 @ [mk_chat userId (asc ''AB negative'')
               (GeneralResponse (asc ''AB negative'')) ''general_inquiry'' ''medium'' ?g2 False None []]\<rparr>"
  have g2: "g_category ?g2 = Some ''general_inquiry''" "g_priority ?g2 = Some ''medium''"
    "g_response ?g2 = Some (GeneralResponse (asc ''AB negative''))"
    using assms(6) by (simp_all add: classification_of_def turn2_facts generateFallbackResponse_def Let_def)
  have fc2: "finalCategory_of ?g2 (asc ''AB negative'') = ''general_inquiry''"
    by (simp add: finalCategory_of_def g2 turn2_facts Let_def)
  have fp2: "finalPriority_of ?g2 (asc ''AB negative'') = ''medium''"
    by (simp add: finalPriority_of_def g2)
  have t2: "text_handler e a2 ?w1 userId
        \<lparr>message = Some (asc ''AB negative''), conversationContext = p_extractedInfo ?p1\<rparr> = (Ok ?p2, ?w2)"
    using assms(7)
    by (simp add: text_handler_def turn2_facts asc_Cons_nonempty fc2 fp2 shouldCreateRequest_def
        general_branch_def g2 Let_def)
  have "p_category ?p1 = ''blood_request'' \<and> p_needsMoreInfo ?p1 \<and> p_missingInfo ?p1 = [''bloodType'']
     \<and> p_response ?p1 = Question AskBloodType \<and> p_createdRequestId ?p1 = None
     \<and> requests ?w1 = requests w
     \<and> ch_pendingRequest (last (chats ?w1)) \<and> ch_extractedInfo (last (chats ?w1)) = Some (p_extractedInfo ?p1)
     \<and> p_category ?p2 = ''general_inquiry'' \<and> p_createdRequestId ?p2 = None
     \<and> p_response ?p2 = GeneralResponse (asc ''AB negative'')
     \<and> p_extractedInfo ?p2 ''bloodType'' = None \<and> requests ?w2 = requests w"
    by (simp add: mk_payload_def mk_chat_def)
  with t1 t2 show ?thesis by blast
qed

theorem C5_payload_witness:
  "(case text_handler demo_env ai_down empty_world ''u1''
           \<lparr>message = Some (asc ''I need blood''), conversationContext = Map.empty\<rparr> of
      (Ok p, w') \<Rightarrow> p_needsMoreInfo p \<and> p_createdRequestId p = None
    | _ \<Rightarrow> False)"
proof -
  have "ai_classify ai_down = None"
    "ai_extract ai_down = Some \<lparr>e_success = False, e_usingFallback = True,
       e_extractedInfo = Map.empty, e_missingRequired = None, e_needsMoreInfo = False\<rparr>"
    "ai_followUp ai_down = Some \<lparr>q_success = False, q_usingFallback = True, q_question = []\<rparr>"
    "chat_ok demo_env"
    by (simp_all add: ai_down_def demo_env_def)
  from heuristic_two_turns [OF this(1,2) _ this(3) _ this(1,4), of empty_world "''u1''"]
  obtain p w' where r: "text_handler demo_env ai_down empty_world ''u1''
        \<lparr>message = Some (asc ''I need blood''), conversationContext = Map.empty\<rparr> = (Ok p, w')"
    and n: "p_needsMoreInfo p" by auto
  have "\<forall>ge. ai_extract ai_down = Some ge \<longrightarrow> \<not> (e_success ge \<and> \<not> e_usingFallback ge)"
    by (simp add: ai_down_def)
  with C5_payload_outcomes [OF r] n have "p_createdRequestId p = None" by blast
  with r n show ?thesis by simp
qed

text \<open>
  Claim C6 on the heuristic path (the classification call throws, the AI extraction and
  the AI question fall back). Turn 1, "I need blood" with an empty context, asks for the
  blood type, creates nothing and saves the slots with the pending chat. Turn 2, "AB
  negative" with these slots as context: the category is computed from the message
  alone, no keyword of a request category occurs in it, so the turn is a general reply
  with no request and no extracted slot; the claim expects a request with blood type AB-.
\<close>

theorem C6_two_turn_conversation:
  assumes "ai_classify a1 = None" "ai_extract a1 = Some ge" "\<not> (e_success ge \<and> \<not> e_usingFallback ge)"
    and "ai_followUp a1 = Some q" "\<not> (q_success q \<and> \<not> q_usingFallback q)"
    and "ai_classify a2 = None" "chat_ok e"
  shows "\<exists>p1 w1 p2 w2.
     text_handler e a1 w userId
        \<lparr>message = Some (asc ''I need blood''), conversationContext = Map.empty\<rparr> = (Ok p1, w1)
     \<and> p_category p1 = ''blood_request'' \<and> p_needsMoreInfo p1 \<and> p_missingInfo p1 = [''bloodType'']
     \<and> p_response p1 = Question AskBloodType \<and> p_createdRequestId p1 = None
     \<and> requests w1 = requests w
     \<and> ch_pendingRequest (last (chats w1)) \<and> ch_extractedInfo (last (chats w1)) = Some (p_extractedInfo p1)
     \<and> text_handler e a2 w1 userId
        \<lparr>message = Some (asc ''AB negative''), conversationContext = p_extractedInfo p1\<rparr> = (Ok p2, w2)
     \<and> p_category p2 = ''general_inquiry'' \<and> p_createdRequestId p2 = None
     \<and> p_response p2 = GeneralResponse (asc ''AB negative'')
     \<and> p_extractedInfo p2 ''bloodType'' = None \<and> requests w2 = requests w"
  using assms by (rule heuristic_two_turns)

theorem C6_two_turn_witness:
  "\<exists>p1 w1 p2 w2.
     text_handler demo_env ai_down empty_world ''u1''
        \<lparr>message = Some (asc ''I need blood''), conversationContext = Map.empty\<rparr> = (Ok p1, w1)
     \<and> p_category p1 = ''blood_request'' \<and> p_needsMoreInfo p1 \<and> p_missingInfo p1 = [''bloodType'']
     \<and> p_response p1 = Question AskBloodType \<and> p_createdRequestId p1 = None
     \<and> requests w1 = requests empty_world
     \<and> ch_pendingRequest (last (chats w1)) \<and> ch_extractedInfo (last (chats w1)) = Some (p_extractedInfo p1)
     \<and> text_handler demo_env ai_down w1 ''u1''
        \<lparr>message = Some (asc ''AB negative''), conversationContext = p_extractedInfo p1\<rparr> = (Ok p2, w2)
     \<and> p_category p2 = ''general_inquiry'' \<and> p_createdRequestId p2 = None
     \<and> p_response p2 = GeneralResponse (asc ''AB negative'')
     \<and> p_extractedInfo p2 ''bloodType'' = None \<and> requests w2 = requests empty_world"
  by (rule C6_two_turn_conversation [where ge = "\<lparr>e_success = False, e_usingFallback = True, e_extractedInfo = Map.empty,
                          e_missingRequired = None, e_needsMoreInfo = False\<rparr>"
               and q = "\<lparr>q_success = False, q_usingFallback = True, q_question = []\<rparr>"])
     (simp_all add: ai_down_def demo_env_def)

end
